theory Spec2Isabelle
  imports Complex_Main
begin

text \<open>
  The map code of the documentation page: the object \<open>mapManager\<close> of the page's script,
  in the version that draws a boundary with every selection, with the global variables
  it works on and the listeners that call it. Line numbers are those of that script.
  The functions are async; each is cut at its awaits, so that the fetches of several
  calls can resolve in any order.
\<close>

section \<open>JavaScript values\<close>

text \<open>
  A JavaScript number is a real or NaN (the infinities and the sign of zero are not
  told apart, and arithmetic is exact). A value is what a decoded JSON response can
  hold, plus \<open>undefined\<close>, which an index expression yields where nothing is stored.
\<close>

datatype jsnum = NaN | Num real

datatype jsval =
    JUndefined
  | JNull
  | JBool bool
  | JNumber jsnum
  | JString string
  | JArray "jsval list"
  | JObject "(string \<times> jsval) list"

datatype js_error =
    TypeError
  | ReferenceError string
  | SyntaxError
  | LeafletError
  | FetchError

text \<open>
  The built-ins whose results on text are not fixed by the program: \<open>JSON.parse\<close>
  (None where it throws a SyntaxError), the conversion of a string to a number that
  \<open>isNaN\<close> applies, and \<open>parseFloat\<close> on a string.
\<close>

record builtins =
  JSON_parse :: "string \<Rightarrow> jsval option"
  StringToNumber :: "string \<Rightarrow> jsnum"
  parseFloat_str :: "string \<Rightarrow> jsnum"

text \<open>Truthiness, as \<open>if (v)\<close> and \<open>a && b\<close> test it.\<close>

fun truthy :: "jsval \<Rightarrow> bool" where
  "truthy JUndefined = False"
| "truthy JNull = False"
| "truthy (JBool t) = t"
| "truthy (JNumber NaN) = False"
| "truthy (JNumber (Num x)) = (x \<noteq> 0)"
| "truthy (JString s) = (s \<noteq> [])"
| "truthy (JArray xs) = True"
| "truthy (JObject kvs) = True"

text \<open>
  \<open>ToNumber\<close>, the conversion inside \<open>isNaN(v)\<close>: \<open>null\<close> is 0, a boolean 0 or 1,
  an array goes through its \<open>join(",")\<close> text (empty text is 0, a \<open>null\<close> element prints
  as empty text, text with a comma is no number), any other object is NaN.
\<close>

fun ToNumber :: "builtins \<Rightarrow> jsval \<Rightarrow> jsnum" where
  "ToNumber b JUndefined = NaN"
| "ToNumber b JNull = Num 0"
| "ToNumber b (JBool t) = Num (if t then 1 else 0)"
| "ToNumber b (JNumber n) = n"
| "ToNumber b (JString s) = StringToNumber b s"
| "ToNumber b (JArray []) = Num 0"
| "ToNumber b (JArray [x]) =
     (case x of
        JUndefined \<Rightarrow> Num 0
      | JNull \<Rightarrow> Num 0
      | JBool t \<Rightarrow> NaN
      | JObject kvs \<Rightarrow> NaN
      | _ \<Rightarrow> ToNumber b x)"
| "ToNumber b (JArray (x # y # zs)) = NaN"
| "ToNumber b (JObject kvs) = NaN"

definition isNaN :: "builtins \<Rightarrow> jsval \<Rightarrow> bool" where
  "isNaN b v = (ToNumber b v = NaN)"

text \<open>
  \<open>parseFloat(v)\<close> reads the longest numeric prefix of the text of \<open>v\<close>: the texts
  \<open>null\<close>, \<open>true\<close>, \<open>undefined\<close>, \<open>[object Object]\<close> and the empty text have none, a
  number prints and reads back as itself, and the text of an array starts with the text
  of its first element, followed by a comma.
\<close>

fun parseFloat :: "builtins \<Rightarrow> jsval \<Rightarrow> jsnum" where
  "parseFloat b JUndefined = NaN"
| "parseFloat b JNull = NaN"
| "parseFloat b (JBool t) = NaN"
| "parseFloat b (JNumber n) = n"
| "parseFloat b (JString s) = parseFloat_str b s"
| "parseFloat b (JArray []) = NaN"
| "parseFloat b (JArray (x # xs)) = parseFloat b x"
| "parseFloat b (JObject kvs) = NaN"

text \<open>\<open>v[0]\<close>: a TypeError on \<open>undefined\<close> and \<open>null\<close>, \<open>undefined\<close> where nothing is stored.\<close>

fun index0 :: "jsval \<Rightarrow> js_error + jsval" where
  "index0 JUndefined = Inl TypeError"
| "index0 JNull = Inl TypeError"
| "index0 (JBool t) = Inr JUndefined"
| "index0 (JNumber n) = Inr JUndefined"
| "index0 (JString s) = Inr (case s of [] \<Rightarrow> JUndefined | c # cs \<Rightarrow> JString [c])"
| "index0 (JArray xs) = Inr (case xs of [] \<Rightarrow> JUndefined | x # ys \<Rightarrow> x)"
| "index0 (JObject kvs) =
     Inr (case map_of kvs ''0'' of None \<Rightarrow> JUndefined | Some v \<Rightarrow> v)"

fun isArray :: "jsval \<Rightarrow> bool" where
  "isArray (JArray xs) = True"
| "isArray v = False"

text \<open>\<open>a !== b\<close> on two numbers: NaN differs from everything, itself included.\<close>

fun strict_neq :: "jsnum \<Rightarrow> jsnum \<Rightarrow> bool" where
  "strict_neq (Num x) (Num y) = (x \<noteq> y)"
| "strict_neq a c = True"

section \<open>Cleaning a boundary path (showProvinceBoundary, showCityBoundary)\<close>

type_synonym point = "jsnum \<times> jsnum"
type_synonym ring = "point list"

text \<open>
  The filter of lines 833 and 847:
  \<open>Array.isArray(pt) && pt.length === 2 && !isNaN(pt[0]) && !isNaN(pt[1])\<close>.
\<close>

fun keepPoint :: "builtins \<Rightarrow> jsval \<Rightarrow> bool" where
  "keepPoint b (JArray [x, y]) = (\<not> isNaN b x \<and> \<not> isNaN b y)"
| "keepPoint b v = False"

text \<open>
  The map of lines 834 and 848: \<open>[parseFloat(pt[0]), parseFloat(pt[1])]\<close>. Only points
  that the filter kept reach it; on an array without a second element \<open>pt[1]\<close> is
  \<open>undefined\<close>.
\<close>

fun toPoint :: "builtins \<Rightarrow> jsval \<Rightarrow> point" where
  "toPoint b (JArray (x # y # zs)) = (parseFloat b x, parseFloat b y)"
| "toPoint b (JArray [x]) = (parseFloat b x, NaN)"
| "toPoint b v = (NaN, NaN)"

definition cleanCoords :: "builtins \<Rightarrow> jsval list \<Rightarrow> ring" where
  "cleanCoords b pts = map (toPoint b) (filter (keepPoint b) pts)"

text \<open>
  Lines 838 to 842 and 850 to 854, for a ring of at least three points: a copy of the
  first point is pushed when first and last differ in a coordinate.
\<close>

definition closeRing :: "ring \<Rightarrow> ring" where
  "closeRing coords =
     (case coords of
        [] \<Rightarrow> []
      | first # rest \<Rightarrow>
          (let lst = last coords in
           if strict_neq (fst first) (fst lst) \<or> strict_neq (snd first) (snd lst)
           then coords @ [(fst first, snd first)]
           else coords))"

text \<open>
  The callback of the multi-polygon branch (lines 831 to 844): \<open>poly.filter\<close> is a
  TypeError when \<open>poly\<close> is no array; a ring of fewer than three points is \<open>null\<close>.
\<close>

definition cleanPolygon :: "builtins \<Rightarrow> jsval \<Rightarrow> js_error + ring option" where
  "cleanPolygon b poly =
     (case poly of
        JArray pts \<Rightarrow>
          (let coords = cleanCoords b pts in
           if length coords < 3 then Inr None else Inr (Some (closeRing coords)))
      | _ \<Rightarrow> Inl TypeError)"

text \<open>\<open>pathCoordinates.map(callback).filter(Boolean)\<close>: the first throwing callback ends it.\<close>

fun cleanPolygons :: "builtins \<Rightarrow> jsval list \<Rightarrow> js_error + ring list" where
  "cleanPolygons b [] = Inr []"
| "cleanPolygons b (poly # polys) =
     (case cleanPolygon b poly of
        Inl e \<Rightarrow> Inl e
      | Inr r \<Rightarrow>
          (case cleanPolygons b polys of
             Inl e \<Rightarrow> Inl e
           | Inr rs \<Rightarrow> Inr (case r of None \<Rightarrow> rs | Some ring \<Rightarrow> ring # rs)))"

text \<open>
  Lines 827 to 857. \<open>pathCoordinates[0][0]\<close> is evaluated first; \<open>.map\<close> and \<open>.filter\<close>
  on a value that is no array are TypeErrors.
\<close>

definition normalizePath :: "builtins \<Rightarrow> jsval \<Rightarrow> js_error + ring list" where
  "normalizePath b pathCoordinates =
     (case index0 pathCoordinates of
        Inl e \<Rightarrow> Inl e
      | Inr e0 \<Rightarrow>
          (case index0 e0 of
             Inl e \<Rightarrow> Inl e
           | Inr e00 \<Rightarrow>
               (case pathCoordinates of
                  JArray elems \<Rightarrow>
                    (if isArray e00 then cleanPolygons b elems
                     else (let coords = cleanCoords b elems in
                           if length coords \<ge> 3 then Inr [closeRing coords] else Inr []))
                | _ \<Rightarrow> Inl TypeError)))"

text \<open>
  Lines 812 to 825: text is parsed (a SyntaxError ends the function), an array is taken
  as it is, anything else ends the function.
\<close>

definition parsePath :: "builtins \<Rightarrow> jsval \<Rightarrow> jsval option" where
  "parsePath b path =
     (case path of
        JString s \<Rightarrow> JSON_parse b s
      | JArray xs \<Rightarrow> Some path
      | _ \<Rightarrow> None)"

text \<open>
  The value of \<open>polygons\<close> that reaches \<open>L.polygon\<close> at line 864. It is empty where the
  function ends before that line: no truthy path (806), the returns of lines 818, 824
  and 861, and an exception caught by the handler of line 872.
\<close>

definition renderablePolygons :: "builtins \<Rightarrow> jsval \<Rightarrow> ring list" where
  "renderablePolygons b path =
     (if truthy path then
        (case parsePath b path of
           None \<Rightarrow> []
         | Some pathCoordinates \<Rightarrow>
             (case normalizePath b pathCoordinates of
                Inl e \<Rightarrow> []
              | Inr polygons \<Rightarrow> polygons))
      else [])"

section \<open>The page state\<close>

datatype level = Province | City | District | Village

text \<open>
  What a popup or the info panel shows is kept as the data it was built from; building
  the markup itself cannot throw.
\<close>

datatype popup =
    ProvincePopup jsval
  | CityPopup jsval
  | DistrictPopup jsval
  | VillagePopup jsval

text \<open>
  A Leaflet layer object: a marker (the level stands for its icon: default, blue, green,
  orange) with its position and bound popup, or a polygon (the level stands for its
  colour: red, blue) with its rings. The number is the identity of the object.
\<close>

datatype overlay =
    Marker level point popup
  | Boundary level "ring list"

type_synonym layer = "nat \<times> overlay"

record leaflet_map =
  center :: point
  zoom :: nat
  layers :: "layer list"

datatype sel_option = Placeholder string | Item jsval jsval

record selector =
  options :: "sel_option list"
  disabled :: bool

datatype display = DisplayDefault | DisplayBlock | DisplayNone

datatype panel_content = NoContent | LoadingContent | ProvinceInfo jsval | ErrorContent

record selected_location =
  province :: "string option"
  city :: "string option"
  district :: "string option"
  village :: "string option"

text \<open>
  An identifier that no declaration introduces has no binding until an assignment
  creates one; reading it before that is a ReferenceError.
\<close>

datatype 'a binding = Unresolvable | Bound 'a

text \<open>
  The global variables of lines 15 to 29, the two identifiers that resetMap uses without
  a declaration, and the elements of the document the map code reads (None where the
  document has no element of that id).
\<close>

record state =
  map_obj :: "leaflet_map option"
  next_id :: nat
  currentProvinceLayer :: "layer option"
  currentCityLayer :: "layer option"
  currentDistrictLayer :: "layer option"
  currentVillageLayer :: "layer option"
  provinceBoundariesLayer :: "layer option"
  cityBoundariesLayer :: "layer option"
  provinceBoundaryLayer :: "layer option binding"
  cityBoundaryLayer :: "layer option binding"
  selectedLocation :: selected_location
  el_province_info :: "display option"
  el_province_info_content :: "panel_content option"
  el_province_select :: "string option"
  el_city_selector :: "selector option"
  el_district_selector :: "selector option"
  el_village_selector :: "selector option"

definition DEFAULT_COORDINATE :: point where
  "DEFAULT_COORDINATE = (Num (- 6.8055), Num 110.8392)"

definition DEFAULT_ZOOM :: nat where
  "DEFAULT_ZOOM = 6"

text \<open>The state when the script has been evaluated, over any document.\<close>

definition script_loaded :: "state \<Rightarrow> bool" where
  "script_loaded s =
     (map_obj s = None \<and> next_id s = 0 \<and>
      currentProvinceLayer s = None \<and> currentCityLayer s = None \<and>
      currentDistrictLayer s = None \<and> currentVillageLayer s = None \<and>
      provinceBoundariesLayer s = None \<and> cityBoundariesLayer s = None \<and>
      provinceBoundaryLayer s = Unresolvable \<and> cityBoundaryLayer s = Unresolvable \<and>
      selectedLocation s = \<lparr>province = None, city = None, district = None, village = None\<rparr>)"

section \<open>Leaflet operations\<close>

text \<open>
  \<open>map.setView\<close>, \<open>map.removeLayer\<close> and \<open>layer.addTo(map)\<close> are TypeErrors while
  \<open>map\<close> is undefined. Leaflet refuses a NaN coordinate with an Error, in \<open>L.marker\<close>,
  \<open>L.polygon\<close> and \<open>setView\<close> alike. None of them changes anything when it throws.
\<close>

definition valid_point :: "point \<Rightarrow> bool" where
  "valid_point p = (fst p \<noteq> NaN \<and> snd p \<noteq> NaN)"

fun valid_overlay :: "overlay \<Rightarrow> bool" where
  "valid_overlay (Marker lv p pp) = valid_point p"
| "valid_overlay (Boundary lv rs) = (\<forall>r \<in> set rs. \<forall>p \<in> set r. valid_point p)"

definition setView :: "point \<Rightarrow> nat \<Rightarrow> state \<Rightarrow> js_error + state" where
  "setView c z s =
     (case map_obj s of
        None \<Rightarrow> Inl TypeError
      | Some m \<Rightarrow>
          if valid_point c then Inr (s\<lparr>map_obj := Some (m\<lparr>center := c, zoom := z\<rparr>)\<rparr>)
          else Inl LeafletError)"

definition removeLayer :: "layer \<Rightarrow> state \<Rightarrow> js_error + state" where
  "removeLayer l s =
     (case map_obj s of
        None \<Rightarrow> Inl TypeError
      | Some m \<Rightarrow>
          Inr (s\<lparr>map_obj := Some (m\<lparr>layers := filter (\<lambda>x. fst x \<noteq> fst l) (layers m)\<rparr>)\<rparr>))"

text \<open>\<open>if (v) { map.removeLayer(v); }\<close> for a layer variable \<open>v\<close>.\<close>

definition removeIfSet :: "layer option \<Rightarrow> state \<Rightarrow> js_error + state" where
  "removeIfSet v s = (case v of None \<Rightarrow> Inr s | Some l \<Rightarrow> removeLayer l s)"

text \<open>\<open>L.marker(...).addTo(map)\<close> and \<open>L.polygon(...).addTo(map)\<close>: a new object, added.\<close>

definition addTo :: "overlay \<Rightarrow> state \<Rightarrow> js_error + (layer \<times> state)" where
  "addTo ov s =
     (if \<not> valid_overlay ov then Inl LeafletError
      else
        (case map_obj s of
           None \<Rightarrow> Inl TypeError
         | Some m \<Rightarrow>
             (let l = (next_id s, ov) in
              Inr (l, s\<lparr>next_id := Suc (next_id s),
                        map_obj := Some (m\<lparr>layers := layers m @ [l]\<rparr>)\<rparr>))))"

section \<open>Responses and selectors\<close>

text \<open>\<open>apiService.fetchData\<close> throws, or returns the decoded body.\<close>

datatype fetched = Failed | Json jsval

text \<open>\<open>v.k\<close> on a value that is neither \<open>undefined\<close> nor \<open>null\<close>.\<close>

definition getProp :: "jsval \<Rightarrow> string \<Rightarrow> jsval" where
  "getProp v k =
     (case v of
        JObject kvs \<Rightarrow> (case map_of kvs k of None \<Rightarrow> JUndefined | Some x \<Rightarrow> x)
      | _ \<Rightarrow> JUndefined)"

text \<open>
  \<open>if (response.success && response.data)\<close>, giving \<open>response.data\<close> where the test
  holds; reading a property of \<open>undefined\<close> or \<open>null\<close> is a TypeError.
\<close>

definition responseData :: "jsval \<Rightarrow> js_error + jsval option" where
  "responseData response =
     (case response of
        JUndefined \<Rightarrow> Inl TypeError
      | JNull \<Rightarrow> Inl TypeError
      | _ \<Rightarrow>
          Inr (if truthy (getProp response ''success'') \<and> truthy (getProp response ''data'')
               then Some (getProp response ''data'') else None))"

text \<open>A code, or the value of a selection field, counts as given when it is truthy.\<close>

definition given :: "string option \<Rightarrow> bool" where
  "given code = (case code of None \<Rightarrow> False | Some c \<Rightarrow> c \<noteq> [])"

text \<open>
  \<open>data.forEach(item => ...)\<close> with one \<open>option\<close> element per item, its value and text
  read from the two named properties: a TypeError when \<open>data\<close> is no array or an item is
  \<open>null\<close>.
\<close>

definition itemOptions :: "string \<Rightarrow> string \<Rightarrow> jsval \<Rightarrow> js_error + sel_option list" where
  "itemOptions kcode kname d =
     (case d of
        JArray items \<Rightarrow>
          (if JNull \<in> set items \<or> JUndefined \<in> set items then Inl TypeError
           else Inr (map (\<lambda>it. Item (getProp it kcode) (getProp it kname)) items))
      | _ \<Rightarrow> Inl TypeError)"

definition clearVillageSelector :: "state \<Rightarrow> state" where
  "clearVillageSelector s =
     (case el_village_selector s of
        None \<Rightarrow> s
      | Some sel \<Rightarrow>
          s\<lparr>el_village_selector :=
               Some \<lparr>options = [Placeholder ''Select a village...''], disabled = True\<rparr>\<rparr>)"

definition clearDistrictSelector :: "state \<Rightarrow> state" where
  "clearDistrictSelector s =
     clearVillageSelector
       (case el_district_selector s of
          None \<Rightarrow> s
        | Some sel \<Rightarrow>
            s\<lparr>el_district_selector :=
                 Some \<lparr>options = [Placeholder ''Select a district...''], disabled = True\<rparr>\<rparr>)"

definition clearCitySelector :: "state \<Rightarrow> state" where
  "clearCitySelector s =
     clearDistrictSelector
       (case el_city_selector s of
          None \<Rightarrow> s
        | Some sel \<Rightarrow>
            s\<lparr>el_city_selector :=
                 Some \<lparr>options = [Placeholder ''Select a city/regency...''], disabled = True\<rparr>\<rparr>)"

section \<open>Asynchronous functions\<close>

text \<open>
  An async function runs until its next \<open>await\<close> of a fetch and is resumed with the
  result. A suspended call is named by the fetch it waits for, with the variables it
  still needs.
\<close>

datatype pending =
    ProvinceGeo string
  | Cities
  | CityGeo string
  | Districts
  | DistrictDetail string
  | DistrictCityGeo string jsval
  | Villages
  | VillageDetail string
  | VillageCityGeo jsval

datatype status = Settled | Rejected js_error | Awaiting pending

subsection \<open>populateCitySelector, populateDistrictSelector, populateVillageSelector\<close>

definition populateCitySelector :: "string option \<Rightarrow> state \<Rightarrow> status \<times> state" where
  "populateCitySelector provinceCode s =
     (case el_city_selector s of
        None \<Rightarrow> (Settled, s)
      | Some sel \<Rightarrow>
          if \<not> given provinceCode then
            (Settled,
             clearDistrictSelector
               (s\<lparr>el_city_selector :=
                    Some \<lparr>options = [Placeholder ''Select a city/regency...''],
                          disabled = True\<rparr>\<rparr>))
          else
            (Awaiting Cities,
             s\<lparr>el_city_selector :=
                  Some \<lparr>options = [Placeholder ''Loading...''], disabled = True\<rparr>\<rparr>))"

text \<open>
  The rest of a populate function after its fetch (lines 237 to 250 for the cities):
  the handler replaces the options by one error entry and leaves \<open>disabled\<close> as it is.
\<close>

definition populated :: "string \<Rightarrow> string \<Rightarrow> string \<Rightarrow> string \<Rightarrow> fetched \<Rightarrow> selector \<Rightarrow> selector" where
  "populated first_text error_text kcode kname r sel =
     (case r of
        Failed \<Rightarrow> sel\<lparr>options := [Placeholder error_text]\<rparr>
      | Json response \<Rightarrow>
          (case responseData response of
             Inl e \<Rightarrow> sel\<lparr>options := [Placeholder error_text]\<rparr>
           | Inr None \<Rightarrow> sel
           | Inr (Some d) \<Rightarrow>
               (case itemOptions kcode kname d of
                  Inl e \<Rightarrow> sel\<lparr>options := [Placeholder error_text]\<rparr>
                | Inr items \<Rightarrow>
                    \<lparr>options = Placeholder first_text # items, disabled = False\<rparr>)))"

definition populateCitySelector_resume :: "fetched \<Rightarrow> state \<Rightarrow> state" where
  "populateCitySelector_resume r s =
     (case el_city_selector s of
        None \<Rightarrow> s
      | Some sel \<Rightarrow>
          s\<lparr>el_city_selector :=
               Some (populated ''Select a city/regency...'' ''Error loading cities''
                       ''kode_kabupaten_kota'' ''nama_kabupaten_kota'' r sel)\<rparr>)"

definition populateDistrictSelector :: "string option \<Rightarrow> state \<Rightarrow> status \<times> state" where
  "populateDistrictSelector cityCode s =
     (case el_district_selector s of
        None \<Rightarrow> (Settled, s)
      | Some sel \<Rightarrow>
          if \<not> given cityCode then
            (Settled,
             clearVillageSelector
               (s\<lparr>el_district_selector :=
                    Some \<lparr>options = [Placeholder ''Select a district...''],
                          disabled = True\<rparr>\<rparr>))
          else
            (Awaiting Districts,
             s\<lparr>el_district_selector :=
                  Some \<lparr>options = [Placeholder ''Loading...''], disabled = True\<rparr>\<rparr>))"

definition populateDistrictSelector_resume :: "fetched \<Rightarrow> state \<Rightarrow> state" where
  "populateDistrictSelector_resume r s =
     (case el_district_selector s of
        None \<Rightarrow> s
      | Some sel \<Rightarrow>
          s\<lparr>el_district_selector :=
               Some (populated ''Select a district...'' ''Error loading districts''
                       ''kode_kecamatan'' ''nama_kecamatan'' r sel)\<rparr>)"

definition populateVillageSelector :: "string option \<Rightarrow> state \<Rightarrow> status \<times> state" where
  "populateVillageSelector districtCode s =
     (case el_village_selector s of
        None \<Rightarrow> (Settled, s)
      | Some sel \<Rightarrow>
          if \<not> given districtCode then
            (Settled,
             s\<lparr>el_village_selector :=
                  Some \<lparr>options = [Placeholder ''Select a village...''], disabled = True\<rparr>\<rparr>)
          else
            (Awaiting Villages,
             s\<lparr>el_village_selector :=
                  Some \<lparr>options = [Placeholder ''Loading...''], disabled = True\<rparr>\<rparr>))"

definition populateVillageSelector_resume :: "fetched \<Rightarrow> state \<Rightarrow> state" where
  "populateVillageSelector_resume r s =
     (case el_village_selector s of
        None \<Rightarrow> s
      | Some sel \<Rightarrow>
          s\<lparr>el_village_selector :=
               Some (populated ''Select a village...'' ''Error loading villages''
                       ''kode_desa_kelurahan'' ''nama_desa_kelurahan'' r sel)\<rparr>)"

subsection \<open>showProvinceInfo, showProvinceBoundary, showCityBoundary\<close>

definition showProvinceInfo :: "jsval \<Rightarrow> state \<Rightarrow> state" where
  "showProvinceInfo d s =
     (case (el_province_info s, el_province_info_content s) of
        (Some dsp, Some c) \<Rightarrow>
          s\<lparr>el_province_info_content := Some (ProvinceInfo d),
            el_province_info := Some DisplayBlock\<rparr>
      | _ \<Rightarrow> s)"

text \<open>
  Lines 804 to 875. The whole body is inside \<open>try\<close>, and the handler only logs: an
  exception leaves the state as it was when thrown. The old layer is taken off the map
  before the path is looked at, and the variable keeps it until a new layer is stored.
\<close>

definition showProvinceBoundary :: "builtins \<Rightarrow> jsval \<Rightarrow> state \<Rightarrow> state" where
  "showProvinceBoundary b geoData s =
     (if truthy geoData \<and> truthy (getProp geoData ''path'') then
        (case removeIfSet (provinceBoundariesLayer s) s of
           Inl e \<Rightarrow> s
         | Inr s1 \<Rightarrow>
             (let polygons = renderablePolygons b (getProp geoData ''path'') in
              if polygons = [] then s1
              else
                (case addTo (Boundary Province polygons) s1 of
                   Inl e \<Rightarrow> s1
                 | Inr (l, s2) \<Rightarrow> s2\<lparr>provinceBoundariesLayer := Some l\<rparr>)))
      else s)"

definition showCityBoundary :: "builtins \<Rightarrow> jsval \<Rightarrow> state \<Rightarrow> state" where
  "showCityBoundary b geoData s =
     (if truthy geoData \<and> truthy (getProp geoData ''path'') then
        (case removeIfSet (cityBoundariesLayer s) s of
           Inl e \<Rightarrow> s
         | Inr s1 \<Rightarrow>
             (let polygons = renderablePolygons b (getProp geoData ''path'') in
              if polygons = [] then s1
              else
                (case addTo (Boundary City polygons) s1 of
                   Inl e \<Rightarrow> s1
                 | Inr (l, s2) \<Rightarrow> s2\<lparr>cityBoundariesLayer := Some l\<rparr>)))
      else s)"

subsection \<open>resetMap\<close>

text \<open>\<open>if (v) { map.removeLayer(v); v = null; }\<close> for each of the layer variables.\<close>

definition dropProvinceLayer :: "state \<Rightarrow> js_error + state" where
  "dropProvinceLayer s =
     (case currentProvinceLayer s of
        None \<Rightarrow> Inr s
      | Some l \<Rightarrow>
          (case removeLayer l s of
             Inl e \<Rightarrow> Inl e
           | Inr s1 \<Rightarrow> Inr (s1\<lparr>currentProvinceLayer := None\<rparr>)))"

definition dropCityLayer :: "state \<Rightarrow> js_error + state" where
  "dropCityLayer s =
     (case currentCityLayer s of
        None \<Rightarrow> Inr s
      | Some l \<Rightarrow>
          (case removeLayer l s of
             Inl e \<Rightarrow> Inl e
           | Inr s1 \<Rightarrow> Inr (s1\<lparr>currentCityLayer := None\<rparr>)))"

definition dropDistrictLayer :: "state \<Rightarrow> js_error + state" where
  "dropDistrictLayer s =
     (case currentDistrictLayer s of
        None \<Rightarrow> Inr s
      | Some l \<Rightarrow>
          (case removeLayer l s of
             Inl e \<Rightarrow> Inl e
           | Inr s1 \<Rightarrow> Inr (s1\<lparr>currentDistrictLayer := None\<rparr>)))"

definition dropVillageLayer :: "state \<Rightarrow> js_error + state" where
  "dropVillageLayer s =
     (case currentVillageLayer s of
        None \<Rightarrow> Inr s
      | Some l \<Rightarrow>
          (case removeLayer l s of
             Inl e \<Rightarrow> Inl e
           | Inr s1 \<Rightarrow> Inr (s1\<lparr>currentVillageLayer := None\<rparr>)))"

definition dropCityBoundaries :: "state \<Rightarrow> js_error + state" where
  "dropCityBoundaries s =
     (case cityBoundariesLayer s of
        None \<Rightarrow> Inr s
      | Some l \<Rightarrow>
          (case removeLayer l s of
             Inl e \<Rightarrow> Inl e
           | Inr s1 \<Rightarrow> Inr (s1\<lparr>cityBoundariesLayer := None\<rparr>)))"

text \<open>
  The same statement on \<open>provinceBoundaryLayer\<close> and \<open>cityBoundaryLayer\<close> (lines 750 to
  757 and 794 to 797), which no \<open>let\<close> declares: the test reads the identifier first.
\<close>

definition dropProvinceBoundary :: "state \<Rightarrow> js_error + state" where
  "dropProvinceBoundary s =
     (case provinceBoundaryLayer s of
        Unresolvable \<Rightarrow> Inl (ReferenceError ''provinceBoundaryLayer'')
      | Bound None \<Rightarrow> Inr s
      | Bound (Some l) \<Rightarrow>
          (case removeLayer l s of
             Inl e \<Rightarrow> Inl e
           | Inr s1 \<Rightarrow> Inr (s1\<lparr>provinceBoundaryLayer := Bound None\<rparr>)))"

definition dropCityBoundary :: "state \<Rightarrow> js_error + state" where
  "dropCityBoundary s =
     (case cityBoundaryLayer s of
        Unresolvable \<Rightarrow> Inl (ReferenceError ''cityBoundaryLayer'')
      | Bound None \<Rightarrow> Inr s
      | Bound (Some l) \<Rightarrow>
          (case removeLayer l s of
             Inl e \<Rightarrow> Inl e
           | Inr s1 \<Rightarrow> Inr (s1\<lparr>cityBoundaryLayer := Bound None\<rparr>)))"

text \<open>Lines 759 to 791: the selection, the selectors and the info panel.\<close>

definition resetSelection :: "state \<Rightarrow> state" where
  "resetSelection s =
     s\<lparr>selectedLocation := \<lparr>province = None, city = None, district = None, village = None\<rparr>,
       el_province_select := map_option (\<lambda>v. []) (el_province_select s),
       el_city_selector :=
         map_option (\<lambda>sel. \<lparr>options = [Placeholder ''Select a city/regency...''],
                              disabled = True\<rparr>) (el_city_selector s),
       el_district_selector :=
         map_option (\<lambda>sel. \<lparr>options = [Placeholder ''Select a district...''],
                              disabled = True\<rparr>) (el_district_selector s),
       el_village_selector :=
         map_option (\<lambda>sel. \<lparr>options = [Placeholder ''Select a village...''],
                              disabled = True\<rparr>) (el_village_selector s),
       el_province_info := map_option (\<lambda>d. DisplayNone) (el_province_info s)\<rparr>"

text \<open>
  Lines 728 to 802, in the order of the statements. No \<open>try\<close> surrounds them: the
  first exception ends the function, with the state as it is at that point.
\<close>

definition resetMap :: "state \<Rightarrow> js_error option \<times> state" where
  "resetMap s =
     (case setView DEFAULT_COORDINATE DEFAULT_ZOOM s of Inl e \<Rightarrow> (Some e, s) | Inr s1 \<Rightarrow>
     (case dropProvinceLayer s1 of Inl e \<Rightarrow> (Some e, s1) | Inr s2 \<Rightarrow>
     (case dropCityLayer s2 of Inl e \<Rightarrow> (Some e, s2) | Inr s3 \<Rightarrow>
     (case dropDistrictLayer s3 of Inl e \<Rightarrow> (Some e, s3) | Inr s4 \<Rightarrow>
     (case dropVillageLayer s4 of Inl e \<Rightarrow> (Some e, s4) | Inr s5 \<Rightarrow>
     (case dropProvinceBoundary s5 of Inl e \<Rightarrow> (Some e, s5) | Inr s6 \<Rightarrow>
     (case dropCityBoundary s6 of Inl e \<Rightarrow> (Some e, s6) | Inr s7 \<Rightarrow>
     (let s8 = resetSelection s7 in
     (case dropProvinceBoundary s8 of Inl e \<Rightarrow> (Some e, s8) | Inr s9 \<Rightarrow>
     (case dropCityBoundaries s9 of Inl e \<Rightarrow> (Some e, s9) | Inr s10 \<Rightarrow>
        (None, s10)))))))))))"

subsection \<open>selectProvince\<close>

text \<open>The handler of lines 427 to 433.\<close>

definition provinceFailed :: "state \<Rightarrow> state" where
  "provinceFailed s =
     (case el_province_info_content s of
        None \<Rightarrow> s
      | Some c \<Rightarrow> s\<lparr>el_province_info_content := Some ErrorContent\<rparr>)"

text \<open>
  Lines 375 to 399, up to the fetch of the province's geo data. Without a code,
  resetMap is called outside any \<open>try\<close>: what it throws rejects the call, and
  clearCitySelector is not reached.
\<close>

definition selectProvince :: "string option \<Rightarrow> state \<Rightarrow> status \<times> state" where
  "selectProvince provinceCode s =
     (if \<not> given provinceCode then
        (case resetMap s of
           (Some e, s1) \<Rightarrow> (Rejected e, s1)
         | (None, s1) \<Rightarrow> (Settled, clearCitySelector s1))
      else
        (Awaiting (ProvinceGeo (the provinceCode)),
         s\<lparr>el_province_info_content :=
             map_option (\<lambda>c. LoadingContent) (el_province_info_content s),
           el_province_info := map_option (\<lambda>d. DisplayBlock) (el_province_info s),
           selectedLocation :=
             \<lparr>province = provinceCode, city = None, district = None, village = None\<rparr>\<rparr>))"

text \<open>Lines 399 to 433, from the result of the fetch to the fetch of the cities.\<close>

definition selectProvince_resume ::
    "builtins \<Rightarrow> string \<Rightarrow> fetched \<Rightarrow> state \<Rightarrow> status \<times> state" where
  "selectProvince_resume b provinceCode r s =
     (case r of
        Failed \<Rightarrow> (Settled, provinceFailed s)
      | Json geoResponse \<Rightarrow>
     (case responseData geoResponse of
        Inl e \<Rightarrow> (Settled, provinceFailed s)
      | Inr None \<Rightarrow> (Settled, s)
      | Inr (Some geoData) \<Rightarrow>
     (let lat = parseFloat b (getProp geoData ''lat'');
          lng = parseFloat b (getProp geoData ''lng'') in
      if lat = NaN \<or> lng = NaN then (Settled, s)
      else
     (case removeIfSet (currentProvinceLayer s) s of
        Inl e \<Rightarrow> (Settled, provinceFailed s)
      | Inr s1 \<Rightarrow>
     (case addTo (Marker Province (lat, lng) (ProvincePopup geoData)) s1 of
        Inl e \<Rightarrow> (Settled, provinceFailed s1)
      | Inr (l, s2) \<Rightarrow>
     (let s3 = s2\<lparr>currentProvinceLayer := Some l\<rparr> in
     (case setView (lat, lng) 8 s3 of
        Inl e \<Rightarrow> (Settled, provinceFailed s3)
      | Inr s4 \<Rightarrow>
          populateCitySelector (Some provinceCode)
            (showProvinceBoundary b geoData (showProvinceInfo geoData s4)))))))))"

subsection \<open>selectCity\<close>

definition selectCity :: "string option \<Rightarrow> state \<Rightarrow> status \<times> state" where
  "selectCity cityCode s =
     (if \<not> given cityCode then
        (case dropCityLayer s of
           Inl e \<Rightarrow> (Rejected e, s)
         | Inr s1 \<Rightarrow>
             (Settled,
              (clearDistrictSelector s1)
                \<lparr>selectedLocation :=
                   (selectedLocation (clearDistrictSelector s1))
                     \<lparr>city := None, district := None, village := None\<rparr>\<rparr>))
      else
        (Awaiting (CityGeo (the cityCode)),
         s\<lparr>selectedLocation :=
             (selectedLocation s)\<lparr>city := cityCode, district := None, village := None\<rparr>\<rparr>))"

text \<open>Lines 455 to 512; the handler only logs.\<close>

definition selectCity_resume ::
    "builtins \<Rightarrow> string \<Rightarrow> fetched \<Rightarrow> state \<Rightarrow> status \<times> state" where
  "selectCity_resume b cityCode r s =
     (case r of
        Failed \<Rightarrow> (Settled, s)
      | Json geoResponse \<Rightarrow>
     (case responseData geoResponse of
        Inl e \<Rightarrow> (Settled, s)
      | Inr None \<Rightarrow> (Settled, s)
      | Inr (Some geoData) \<Rightarrow>
     (let lat = parseFloat b (getProp geoData ''lat'');
          lng = parseFloat b (getProp geoData ''lng'') in
      if lat = NaN \<or> lng = NaN then (Settled, s)
      else
     (case removeIfSet (currentCityLayer s) s of
        Inl e \<Rightarrow> (Settled, s)
      | Inr s1 \<Rightarrow>
     (case addTo (Marker City (lat, lng) (CityPopup geoData)) s1 of
        Inl e \<Rightarrow> (Settled, s1)
      | Inr (l, s2) \<Rightarrow>
     (let s3 = s2\<lparr>currentCityLayer := Some l\<rparr> in
     (case setView (lat, lng) 10 s3 of
        Inl e \<Rightarrow> (Settled, s3)
      | Inr s4 \<Rightarrow>
          populateDistrictSelector (Some cityCode) (showCityBoundary b geoData s4))))))))"

subsection \<open>selectDistrict\<close>

text \<open>
  \<open>c + (Math.random() - 0.5) * w\<close>, with \<open>rnd\<close> the value \<open>Math.random()\<close> returned
  (at least 0, below 1).
\<close>

definition jitter :: "jsnum \<Rightarrow> real \<Rightarrow> real \<Rightarrow> jsnum" where
  "jitter c rnd w = (case c of NaN \<Rightarrow> NaN | Num x \<Rightarrow> Num (x + (rnd - 0.5) * w))"

definition selectDistrict :: "string option \<Rightarrow> state \<Rightarrow> status \<times> state" where
  "selectDistrict districtCode s =
     (if \<not> given districtCode then
        (case dropDistrictLayer s of
           Inl e \<Rightarrow> (Rejected e, s)
         | Inr s1 \<Rightarrow>
             (Settled,
              (clearVillageSelector s1)
                \<lparr>selectedLocation :=
                   (selectedLocation (clearVillageSelector s1))
                     \<lparr>district := None, village := None\<rparr>\<rparr>))
      else
        (Awaiting (DistrictDetail (the districtCode)),
         s\<lparr>selectedLocation :=
             (selectedLocation s)\<lparr>district := districtCode, village := None\<rparr>\<rparr>))"

text \<open>
  Lines 533 to 540: with the district's detail, the geo data of the selected city is
  fetched, when a city is selected.
\<close>

definition selectDistrict_detail :: "string \<Rightarrow> fetched \<Rightarrow> state \<Rightarrow> status \<times> state" where
  "selectDistrict_detail districtCode r s =
     (case r of
        Failed \<Rightarrow> (Settled, s)
      | Json detailResponse \<Rightarrow>
          (case responseData detailResponse of
             Inl e \<Rightarrow> (Settled, s)
           | Inr None \<Rightarrow> (Settled, s)
           | Inr (Some districtData) \<Rightarrow>
               if given (city (selectedLocation s))
               then (Awaiting (DistrictCityGeo districtCode districtData), s)
               else (Settled, s)))"

text \<open>Lines 541 to 601, from the city's geo data to the fetch of the villages.\<close>

definition selectDistrict_cityGeo ::
    "builtins \<Rightarrow> string \<Rightarrow> jsval \<Rightarrow> fetched \<Rightarrow> real \<Rightarrow> real \<Rightarrow> state \<Rightarrow> status \<times> state" where
  "selectDistrict_cityGeo b districtCode districtData r rnd1 rnd2 s =
     (case r of
        Failed \<Rightarrow> (Settled, s)
      | Json cityGeoResponse \<Rightarrow>
     (case responseData cityGeoResponse of
        Inl e \<Rightarrow> (Settled, s)
      | Inr None \<Rightarrow> (Settled, s)
      | Inr (Some d) \<Rightarrow>
     (let cityLat = parseFloat b (getProp d ''lat'');
          cityLng = parseFloat b (getProp d ''lng'');
          districtLat = jitter cityLat rnd1 0.1;
          districtLng = jitter cityLng rnd2 0.1 in
     (case removeIfSet (currentDistrictLayer s) s of
        Inl e \<Rightarrow> (Settled, s)
      | Inr s1 \<Rightarrow>
     (case addTo (Marker District (districtLat, districtLng) (DistrictPopup districtData)) s1 of
        Inl e \<Rightarrow> (Settled, s1)
      | Inr (l, s2) \<Rightarrow>
     (let s3 = s2\<lparr>currentDistrictLayer := Some l\<rparr> in
     (case setView (districtLat, districtLng) 12 s3 of
        Inl e \<Rightarrow> (Settled, s3)
      | Inr s4 \<Rightarrow> populateVillageSelector (Some districtCode) s4)))))))"

subsection \<open>selectVillage\<close>

definition selectVillage :: "string option \<Rightarrow> state \<Rightarrow> status \<times> state" where
  "selectVillage villageCode s =
     (if \<not> given villageCode then
        (case dropVillageLayer s of
           Inl e \<Rightarrow> (Rejected e, s)
         | Inr s1 \<Rightarrow>
             (Settled, s1\<lparr>selectedLocation := (selectedLocation s1)\<lparr>village := None\<rparr>\<rparr>))
      else
        (Awaiting (VillageDetail (the villageCode)),
         s\<lparr>selectedLocation := (selectedLocation s)\<lparr>village := villageCode\<rparr>\<rparr>))"

definition selectVillage_detail :: "string \<Rightarrow> fetched \<Rightarrow> state \<Rightarrow> status \<times> state" where
  "selectVillage_detail villageCode r s =
     (case r of
        Failed \<Rightarrow> (Settled, s)
      | Json detailResponse \<Rightarrow>
          (case responseData detailResponse of
             Inl e \<Rightarrow> (Settled, s)
           | Inr None \<Rightarrow> (Settled, s)
           | Inr (Some villageData) \<Rightarrow>
               if given (city (selectedLocation s))
               then (Awaiting (VillageCityGeo villageData), s)
               else (Settled, s)))"

definition selectVillage_cityGeo ::
    "builtins \<Rightarrow> jsval \<Rightarrow> fetched \<Rightarrow> real \<Rightarrow> real \<Rightarrow> state \<Rightarrow> status \<times> state" where
  "selectVillage_cityGeo b villageData r rnd1 rnd2 s =
     (case r of
        Failed \<Rightarrow> (Settled, s)
      | Json cityGeoResponse \<Rightarrow>
     (case responseData cityGeoResponse of
        Inl e \<Rightarrow> (Settled, s)
      | Inr None \<Rightarrow> (Settled, s)
      | Inr (Some d) \<Rightarrow>
     (let cityLat = parseFloat b (getProp d ''lat'');
          cityLng = parseFloat b (getProp d ''lng'');
          villageLat = jitter cityLat rnd1 0.2;
          villageLng = jitter cityLng rnd2 0.2 in
     (case removeIfSet (currentVillageLayer s) s of
        Inl e \<Rightarrow> (Settled, s)
      | Inr s1 \<Rightarrow>
     (case addTo (Marker Village (villageLat, villageLng) (VillagePopup villageData)) s1 of
        Inl e \<Rightarrow> (Settled, s1)
      | Inr (l, s2) \<Rightarrow>
     (let s3 = s2\<lparr>currentVillageLayer := Some l\<rparr> in
     (case setView (villageLat, villageLng) 14 s3 of
        Inl e \<Rightarrow> (Settled, s3)
      | Inr s4 \<Rightarrow> (Settled, s4))))))))"

section \<open>Events\<close>

text \<open>
  \<open>mapManager.init\<close> creates the map at the default view (the tile layers and the list
  of provinces it loads are not part of the state). Leaflet refuses to create a second
  map in the same container.
\<close>

definition init :: "state \<Rightarrow> status \<times> state" where
  "init s =
     (case map_obj s of
        Some m \<Rightarrow> (Rejected LeafletError, s)
      | None \<Rightarrow>
          (Settled,
           s\<lparr>map_obj :=
               Some \<lparr>center = DEFAULT_COORDINATE, zoom = DEFAULT_ZOOM, layers = []\<rparr>\<rparr>))"

text \<open>
  What can happen on the page: the listeners of lines 1014 to 1082 call init, the four
  select functions with the value of their control, and resetMap; a suspended call is
  resumed with the result of its fetch (and two values of \<open>Math.random()\<close>, which only
  the district and village markers use).
\<close>

datatype event =
    Init
  | SelectProvince "string option"
  | SelectCity "string option"
  | SelectDistrict "string option"
  | SelectVillage "string option"
  | ResetMap
  | Resume pending fetched real real

fun resume :: "builtins \<Rightarrow> pending \<Rightarrow> fetched \<Rightarrow> real \<Rightarrow> real \<Rightarrow> state \<Rightarrow> status \<times> state" where
  "resume b (ProvinceGeo c) r x y s = selectProvince_resume b c r s"
| "resume b Cities r x y s = (Settled, populateCitySelector_resume r s)"
| "resume b (CityGeo c) r x y s = selectCity_resume b c r s"
| "resume b Districts r x y s = (Settled, populateDistrictSelector_resume r s)"
| "resume b (DistrictDetail c) r x y s = selectDistrict_detail c r s"
| "resume b (DistrictCityGeo c d) r x y s = selectDistrict_cityGeo b c d r x y s"
| "resume b Villages r x y s = (Settled, populateVillageSelector_resume r s)"
| "resume b (VillageDetail c) r x y s = selectVillage_detail c r s"
| "resume b (VillageCityGeo d) r x y s = selectVillage_cityGeo b d r x y s"

fun step :: "builtins \<Rightarrow> event \<Rightarrow> state \<Rightarrow> status \<times> state" where
  "step b Init s = init s"
| "step b (SelectProvince c) s = selectProvince c s"
| "step b (SelectCity c) s = selectCity c s"
| "step b (SelectDistrict c) s = selectDistrict c s"
| "step b (SelectVillage c) s = selectVillage c s"
| "step b ResetMap s =
     (case resetMap s of (Some e, s1) \<Rightarrow> (Rejected e, s1) | (None, s1) \<Rightarrow> (Settled, s1))"
| "step b (Resume p r x y) s = resume b p r x y s"

fun run :: "builtins \<Rightarrow> event list \<Rightarrow> state \<Rightarrow> state" where
  "run b [] s = s"
| "run b (e # es) s = run b es (snd (step b e s))"

text \<open>The states the page can be in: a loaded script, then any events.\<close>

inductive reachable :: "builtins \<Rightarrow> state \<Rightarrow> bool" for b :: builtins where
  loaded: "script_loaded s \<Longrightarrow> reachable b s"
| after: "reachable b s \<Longrightarrow> reachable b (snd (step b e s))"

section \<open>Notions used in the properties\<close>

text \<open>
  For the concrete evaluations below, whose inputs hold no numeric text and no JSON
  text: a choice of the text built-ins under which every text is malformed JSON and
  reads as no number.
\<close>

definition text_free :: builtins where
  "text_free = \<lparr>JSON_parse = (\<lambda>t. None), StringToNumber = (\<lambda>t. NaN),
                 parseFloat_str = (\<lambda>t. NaN)\<rparr>"

text \<open>A ring list as the native array the cleaning receives.\<close>

definition point_to_js :: "point \<Rightarrow> jsval" where
  "point_to_js p = JArray [JNumber (fst p), JNumber (snd p)]"

definition ring_to_js :: "ring \<Rightarrow> jsval" where
  "ring_to_js r = JArray (map point_to_js r)"

definition rings_to_js :: "ring list \<Rightarrow> jsval" where
  "rings_to_js rs = JArray (map ring_to_js rs)"

text \<open>
  A normalized ring list, in the words of the specification: every ring has at least
  three points, all numeric, and its first point is its last.
\<close>

definition normalized_ring :: "ring \<Rightarrow> bool" where
  "normalized_ring r = (length r \<ge> 3 \<and> (\<forall>p \<in> set r. valid_point p) \<and> hd r = last r)"

definition normalized :: "ring list \<Rightarrow> bool" where
  "normalized rs = (\<forall>r \<in> set rs. normalized_ring r)"

text \<open>
  The degenerate inputs of the cleaning: text that \<open>JSON.parse\<close> rejects; an array,
  given natively or as JSON text; a polygon of exactly two points.
\<close>

definition malformed_text :: "builtins \<Rightarrow> jsval \<Rightarrow> bool" where
  "malformed_text b path = (case path of JString t \<Rightarrow> JSON_parse b t = None | _ \<Rightarrow> False)"

definition holds_array :: "builtins \<Rightarrow> jsval \<Rightarrow> jsval list \<Rightarrow> bool" where
  "holds_array b path elems =
     (case path of
        JArray xs \<Rightarrow> xs = elems
      | JString t \<Rightarrow> JSON_parse b t = Some (JArray elems)
      | _ \<Rightarrow> False)"

fun two_point_polygon :: "jsval \<Rightarrow> bool" where
  "two_point_polygon (JArray [p, q]) = (isArray p \<and> isArray q)"
| "two_point_polygon v = False"

definition layers_on_map :: "state \<Rightarrow> layer list" where
  "layers_on_map s = (case map_obj s of None \<Rightarrow> [] | Some m \<Rightarrow> layers m)"

text \<open>
  A page for the concrete evaluations: the script loaded on a document that has every
  element the map code looks up except \<open>province-select\<close>, and the same page after
  \<open>mapManager.init\<close>.
\<close>

definition fresh_page :: state where
  "fresh_page =
     \<lparr>map_obj = None, next_id = 0,
      currentProvinceLayer = None, currentCityLayer = None,
      currentDistrictLayer = None, currentVillageLayer = None,
      provinceBoundariesLayer = None, cityBoundariesLayer = None,
      provinceBoundaryLayer = Unresolvable, cityBoundaryLayer = Unresolvable,
      selectedLocation = \<lparr>province = None, city = None, district = None, village = None\<rparr>,
      el_province_info = Some DisplayDefault,
      el_province_info_content = Some NoContent,
      el_province_select = None,
      el_city_selector =
        Some \<lparr>options = [Placeholder ''Select a city/regency...''], disabled = True\<rparr>,
      el_district_selector =
        Some \<lparr>options = [Placeholder ''Select a district...''], disabled = True\<rparr>,
      el_village_selector =
        Some \<lparr>options = [Placeholder ''Select a village...''], disabled = True\<rparr>\<rparr>"

definition ready_page :: state where
  "ready_page = snd (init fresh_page)"

text \<open>The viewport of the map, and the position of the marker a variable holds.\<close>

definition viewport :: "state \<Rightarrow> (point \<times> nat) option" where
  "viewport s = map_option (\<lambda>m. (center m, zoom m)) (map_obj s)"





text \<open>The layers left on the map when the layer a variable holds is taken off.\<close>

definition without :: "layer option \<Rightarrow> layer list \<Rightarrow> layer list" where
  "without v ls = (case v of None \<Rightarrow> ls | Some l \<Rightarrow> filter (\<lambda>x. fst x \<noteq> fst l) ls)"

text \<open>
  Sample responses for the concrete evaluations: a successful response carrying \<open>d\<close>,
  and geo data with a numeric coordinate and no path.
\<close>

definition ok_response :: "jsval \<Rightarrow> jsval" where
  "ok_response d = JObject [(''success'', JBool True), (''data'', d)]"

definition geo_at :: "real \<Rightarrow> real \<Rightarrow> jsval" where
  "geo_at la lo = JObject [(''lat'', JNumber (Num la)), (''lng'', JNumber (Num lo))]"

text \<open>Geo data whose path is one open triangle, given as a native array.\<close>

definition geo_outlined :: "real \<Rightarrow> real \<Rightarrow> jsval" where
  "geo_outlined la lo =
     JObject [(''lat'', JNumber (Num la)), (''lng'', JNumber (Num lo)),
              (''path'', JArray [JArray [JNumber (Num 0), JNumber (Num 0)],
                                 JArray [JNumber (Num 1), JNumber (Num 1)],
                                 JArray [JNumber (Num 0), JNumber (Num 1)]])]"

text \<open>The live markers and boundary layers of a level: those on the map.\<close>

fun is_marker_of :: "level \<Rightarrow> layer \<Rightarrow> bool" where
  "is_marker_of lv (i, Marker lv' p pp) = (lv' = lv)"
| "is_marker_of lv (i, Boundary lv' rs) = False"

fun is_boundary_of :: "level \<Rightarrow> layer \<Rightarrow> bool" where
  "is_boundary_of lv (i, Boundary lv' rs) = (lv' = lv)"
| "is_boundary_of lv (i, Marker lv' p pp) = False"

definition markers_of :: "level \<Rightarrow> state \<Rightarrow> layer list" where
  "markers_of lv s = filter (is_marker_of lv) (layers_on_map s)"

definition boundaries_of :: "level \<Rightarrow> state \<Rightarrow> layer list" where
  "boundaries_of lv s = filter (is_boundary_of lv) (layers_on_map s)"

text \<open>
  The variable that holds the layers of a kind, and the invariant behind the count:
  the layers on the map are distinct objects, each held by the variable of its kind,
  and every object was created before the next one to come.
\<close>

fun holder :: "overlay \<Rightarrow> state \<Rightarrow> layer option" where
  "holder (Marker Province p pp) s = currentProvinceLayer s"
| "holder (Marker City p pp) s = currentCityLayer s"
| "holder (Marker District p pp) s = currentDistrictLayer s"
| "holder (Marker Village p pp) s = currentVillageLayer s"
| "holder (Boundary Province rs) s = provinceBoundariesLayer s"
| "holder (Boundary City rs) s = cityBoundariesLayer s"
| "holder (Boundary District rs) s = None"
| "holder (Boundary Village rs) s = None"

definition below :: "nat \<Rightarrow> layer option \<Rightarrow> bool" where
  "below n v = (case v of None \<Rightarrow> True | Some l \<Rightarrow> fst l < n)"

definition tracked :: "state \<Rightarrow> bool" where
  "tracked s =
     (distinct (map fst (layers_on_map s)) \<and>
      list_all (\<lambda>l. fst l < next_id s \<and> holder (snd l) s = Some l) (layers_on_map s) \<and>
      below (next_id s) (currentProvinceLayer s) \<and>
      below (next_id s) (currentCityLayer s) \<and>
      below (next_id s) (currentDistrictLayer s) \<and>
      below (next_id s) (currentVillageLayer s) \<and>
      below (next_id s) (provinceBoundariesLayer s) \<and>
      below (next_id s) (cityBoundariesLayer s))"

definition layer_vars ::
    "state \<Rightarrow> layer option \<times> layer option \<times> layer option \<times> layer option \<times>
              layer option \<times> layer option" where
  "layer_vars s =
     (currentProvinceLayer s, currentCityLayer s, currentDistrictLayer s,
      currentVillageLayer s, provinceBoundariesLayer s, cityBoundariesLayer s)"

text \<open>
  A response that carries data with a numeric coordinate, and the events that place
  the marker of a level: the resumption of the level's select function with such a
  response.
\<close>

definition locates :: "builtins \<Rightarrow> fetched \<Rightarrow> bool" where
  "locates b r =
     (case r of
        Failed \<Rightarrow> False
      | Json response \<Rightarrow>
          (case responseData response of
             Inr (Some d) \<Rightarrow>
               parseFloat b (getProp d ''lat'') \<noteq> NaN \<and> parseFloat b (getProp d ''lng'') \<noteq> NaN
           | _ \<Rightarrow> False))"

fun places :: "builtins \<Rightarrow> level \<Rightarrow> event \<Rightarrow> bool" where
  "places b Province (Resume (ProvinceGeo c) r x y) = locates b r"
| "places b City (Resume (CityGeo c) r x y) = locates b r"
| "places b District (Resume (DistrictCityGeo c d) r x y) = locates b r"
| "places b Village (Resume (VillageCityGeo d) r x y) = locates b r"
| "places b lv e = False"

text \<open>
  The events that draw the boundary of a level: a placing event (of a province or a
  city) whose data has a path that the cleaning turns into rings Leaflet accepts.
\<close>

definition outlines :: "builtins \<Rightarrow> level \<Rightarrow> fetched \<Rightarrow> bool" where
  "outlines b lv r =
     (case r of
        Failed \<Rightarrow> False
      | Json response \<Rightarrow>
          (case responseData response of
             Inr (Some d) \<Rightarrow>
               truthy (getProp d ''path'') \<and>
               renderablePolygons b (getProp d ''path'') \<noteq> [] \<and>
               valid_overlay (Boundary lv (renderablePolygons b (getProp d ''path'')))
           | _ \<Rightarrow> False))"

fun draws :: "builtins \<Rightarrow> level \<Rightarrow> event \<Rightarrow> bool" where
  "draws b Province (Resume (ProvinceGeo c) r x y) = (locates b r \<and> outlines b Province r)"
| "draws b City (Resume (CityGeo c) r x y) = (locates b r \<and> outlines b City r)"
| "draws b lv e = False"

text \<open>The two identifiers that resetMap reads have no binding.\<close>

definition undeclared :: "state \<Rightarrow> bool" where
  "undeclared s = (provinceBoundaryLayer s = Unresolvable \<and> cityBoundaryLayer s = Unresolvable)"

section \<open>Properties of the path cleaning\<close>

lemma keepPoint_point: "valid_point p \<Longrightarrow> keepPoint b (point_to_js p)"
  by (simp add: point_to_js_def valid_point_def isNaN_def)

lemma toPoint_point: "toPoint b (point_to_js p) = p"
  by (simp add: point_to_js_def)

lemma cleanCoords_points:
  "\<forall>p \<in> set r. valid_point p \<Longrightarrow> cleanCoords b (map point_to_js r) = r"
  by (induction r) (simp_all add: cleanCoords_def keepPoint_point toPoint_point)

lemma strict_neq_valid: "a \<noteq> NaN \<Longrightarrow> \<not> strict_neq a a"
  by (cases a) simp_all

lemma closeRing_closed:
  "r \<noteq> [] \<Longrightarrow> \<forall>p \<in> set r. valid_point p \<Longrightarrow> hd r = last r \<Longrightarrow> closeRing r = r"
  by (cases r) (auto simp: closeRing_def Let_def valid_point_def strict_neq_valid split: if_splits)

lemma cleanPolygon_ring: "normalized_ring r \<Longrightarrow> cleanPolygon b (ring_to_js r) = Inr (Some r)"
proof -
  assume n: "normalized_ring r"
  then have ne: "r \<noteq> []" and len: "\<not> length r < 3" by (auto simp: normalized_ring_def)
  from n ne have "closeRing r = r" by (simp add: normalized_ring_def closeRing_closed)
  with n len show ?thesis
    by (simp add: cleanPolygon_def ring_to_js_def normalized_ring_def cleanCoords_points)
qed

lemma cleanPolygons_rings: "normalized rs \<Longrightarrow> cleanPolygons b (map ring_to_js rs) = Inr rs"
  by (induction rs) (simp_all add: normalized_def cleanPolygon_ring)

lemma normalizePath_rings:
  assumes n: "normalized rs" and ne: "rs \<noteq> []"
  shows "normalizePath b (rings_to_js rs) = Inr rs"
proof -
  from ne obtain r rs' where rs: "rs = r # rs'" by (cases rs) auto
  with n have "normalized_ring r" by (simp add: normalized_def)
  then obtain p r' where r: "r = p # r'" by (cases r) (auto simp: normalized_ring_def)
  have "normalizePath b (rings_to_js rs) = cleanPolygons b (map ring_to_js rs)"
    by (simp add: normalizePath_def rings_to_js_def rs r ring_to_js_def point_to_js_def)
  with n show ?thesis by (simp add: cleanPolygons_rings)
qed

text \<open>
  C4 (the code departs from the claim). The input
  \<open>[[null, null], [0, 0], [1, 1], [0, 1]]\<close> holds a valid triangle. The filter keeps
  \<open>[null, null]\<close>, since \<open>isNaN(null)\<close> is false, and \<open>parseFloat(null)\<close> is NaN: the
  ring that comes out has a NaN point at its start, and the closing test, which NaN
  always passes, pushes a second one at its end.
\<close>

theorem null_point_survives_cleaning:
  "renderablePolygons b
     (JArray [JArray [JNull, JNull],
              JArray [JNumber (Num 0), JNumber (Num 0)],
              JArray [JNumber (Num 1), JNumber (Num 1)],
              JArray [JNumber (Num 0), JNumber (Num 1)]])
   = [[(NaN, NaN), (Num 0, Num 0), (Num 1, Num 1), (Num 0, Num 1), (NaN, NaN)]]"
  by (simp add: renderablePolygons_def parsePath_def normalizePath_def cleanCoords_def
        isNaN_def closeRing_def)

text \<open>
  C7. Cleaning is idempotent: a normalized ring list, given as the path, comes out as
  it went in. (For the empty list \<open>pathCoordinates[0][0]\<close> throws, the handler catches
  it, and nothing is rendered.)
\<close>

theorem normalization_idempotent:
  "normalized rs \<Longrightarrow> renderablePolygons b (rings_to_js rs) = rs"
proof (cases "rs = []")
  case True
  then show ?thesis
    by (simp add: renderablePolygons_def rings_to_js_def parsePath_def normalizePath_def)
next
  case False
  assume "normalized rs"
  then have "normalizePath b (rings_to_js rs) = Inr rs" using False by (rule normalizePath_rings)
  then show ?thesis by (simp add: renderablePolygons_def rings_to_js_def parsePath_def)
qed

theorem normalization_idempotent_witness:
  "normalized [[(Num 0, Num 0), (Num 1, Num 1), (Num 0, Num 1), (Num 0, Num 0)]] \<and>
   renderablePolygons text_free
     (rings_to_js [[(Num 0, Num 0), (Num 1, Num 1), (Num 0, Num 1), (Num 0, Num 0)]])
   = [[(Num 0, Num 0), (Num 1, Num 1), (Num 0, Num 1), (Num 0, Num 0)]]"
proof -
  have h: "normalized [[(Num 0, Num 0), (Num 1, Num 1), (Num 0, Num 1), (Num 0, Num 0)]]"
    by (simp add: normalized_def normalized_ring_def valid_point_def)
  show ?thesis using h normalization_idempotent [OF h, of text_free] by simp
qed

lemma cleanCoords_length: "length (cleanCoords b pts) \<le> length pts"
  by (simp add: cleanCoords_def)

lemma cleanPolygon_two_points: "two_point_polygon poly \<Longrightarrow> cleanPolygon b poly = Inr None"
proof (induction poly rule: two_point_polygon.induct)
  case (1 p q)
  have "length (cleanCoords b [p, q]) \<le> 2" using cleanCoords_length [of b "[p, q]"] by simp
  then show ?case by (simp add: cleanPolygon_def)
qed simp_all

lemma cleanPolygons_two_points:
  "\<forall>poly \<in> set polys. two_point_polygon poly \<Longrightarrow> cleanPolygons b polys = Inr []"
  by (induction polys) (simp_all add: cleanPolygon_two_points)

lemma two_point_polygon_first:
  "two_point_polygon poly \<Longrightarrow> \<exists>p q. poly = JArray [p, q] \<and> isArray p"
  by (induction poly rule: two_point_polygon.induct) simp_all

lemma normalizePath_two_points:
  assumes "\<forall>poly \<in> set polys. two_point_polygon poly"
  shows "normalizePath b (JArray polys) = Inl TypeError \<or> normalizePath b (JArray polys) = Inr []"
proof (cases polys)
  case Nil
  then show ?thesis by (simp add: normalizePath_def)
next
  case (Cons poly rest)
  with assms have "two_point_polygon poly" by simp
  then obtain p q where "poly = JArray [p, q]" "isArray p"
    using two_point_polygon_first by blast
  with Cons have "normalizePath b (JArray polys) = cleanPolygons b polys"
    by (simp add: normalizePath_def)
  with assms show ?thesis by (simp add: cleanPolygons_two_points)
qed

lemma renderable_of_array:
  assumes "holds_array b path polys" and "\<forall>poly \<in> set polys. two_point_polygon poly"
  shows "renderablePolygons b path = []"
proof -
  have n: "case normalizePath b (JArray polys) of Inl e \<Rightarrow> True | Inr ps \<Rightarrow> ps = []"
    using normalizePath_two_points [OF assms(2), of b] by auto
  from assms(1) show ?thesis
  proof (cases path)
    case (JString t)
    with assms(1) have "JSON_parse b t = Some (JArray polys)" by (simp add: holds_array_def)
    with JString n show ?thesis
      by (simp add: renderablePolygons_def parsePath_def split: sum.splits)
  next
    case (JArray xs)
    with assms(1) have "xs = polys" by (simp add: holds_array_def)
    with JArray n show ?thesis
      by (simp add: renderablePolygons_def parsePath_def split: sum.splits)
  qed (simp_all add: holds_array_def)
qed

lemma renderable_of_malformed: "malformed_text b path \<Longrightarrow> renderablePolygons b path = []"
  by (cases path) (simp_all add: malformed_text_def renderablePolygons_def parsePath_def)

lemma removeIfSet_layers:
  "removeIfSet v s = Inr s1 \<Longrightarrow>
     set (layers_on_map s1) \<subseteq> set (layers_on_map s) \<and> next_id s1 = next_id s \<and>
     provinceBoundariesLayer s1 = provinceBoundariesLayer s"
  by (auto simp: removeIfSet_def removeLayer_def layers_on_map_def split: option.splits)

lemma showProvinceBoundary_nothing:
  assumes "renderablePolygons b (getProp geoData ''path'') = []"
  shows "set (layers_on_map (showProvinceBoundary b geoData s)) \<subseteq> set (layers_on_map s) \<and>
         next_id (showProvinceBoundary b geoData s) = next_id s \<and>
         provinceBoundariesLayer (showProvinceBoundary b geoData s) = provinceBoundariesLayer s"
proof (cases "removeIfSet (provinceBoundariesLayer s) s")
  case (Inl e)
  then show ?thesis by (simp add: showProvinceBoundary_def)
next
  case (Inr s1)
  with assms removeIfSet_layers [OF Inr] show ?thesis
    by (simp add: showProvinceBoundary_def)
qed

text \<open>
  C6. For a path that is malformed text, an empty array or an array of two-point
  polygons (the arrays given natively or as JSON text), the cleaning yields nothing to
  render, and showProvinceBoundary, which cannot throw, adds no layer: it creates no
  object, stores nothing in \<open>provinceBoundariesLayer\<close>, and the map holds no layer it
  did not hold before.
\<close>

theorem degenerate_path_adds_no_layer:
  assumes "malformed_text b path \<or> holds_array b path [] \<or>
           (holds_array b path polys \<and> (\<forall>poly \<in> set polys. two_point_polygon poly))"
    and "getProp geoData ''path'' = path"
  shows "renderablePolygons b path = [] \<and>
         set (layers_on_map (showProvinceBoundary b geoData s)) \<subseteq> set (layers_on_map s) \<and>
         next_id (showProvinceBoundary b geoData s) = next_id s \<and>
         provinceBoundariesLayer (showProvinceBoundary b geoData s) = provinceBoundariesLayer s"
proof -
  have "renderablePolygons b path = []"
    using assms(1) renderable_of_malformed [of b path] renderable_of_array [of b path "[]"]
      renderable_of_array [of b path polys] by auto
  with assms(2) showProvinceBoundary_nothing [of b geoData s] show ?thesis by simp
qed

theorem degenerate_path_adds_no_layer_witness:
  "malformed_text text_free (JString ''not json'') \<and>
   getProp (JObject [(''path'', JString ''not json'')]) ''path'' = JString ''not json'' \<and>
   renderablePolygons text_free (JString ''not json'') = [] \<and>
   set (layers_on_map (showProvinceBoundary text_free
          (JObject [(''path'', JString ''not json'')]) ready_page))
     \<subseteq> set (layers_on_map ready_page) \<and>
   next_id (showProvinceBoundary text_free (JObject [(''path'', JString ''not json'')]) ready_page)
     = next_id ready_page \<and>
   provinceBoundariesLayer (showProvinceBoundary text_free
          (JObject [(''path'', JString ''not json'')]) ready_page)
     = provinceBoundariesLayer ready_page"
proof -
  have h1: "malformed_text text_free (JString ''not json'')"
    by (simp add: malformed_text_def text_free_def)
  have h2: "getProp (JObject [(''path'', JString ''not json'')]) ''path'' = JString ''not json''"
    by (simp add: getProp_def)
  show ?thesis
    using h1 h2 degenerate_path_adds_no_layer [of text_free "JString ''not json''" "[]" _ ready_page, OF _ h2]
    by simp
qed

section \<open>Properties of the page\<close>

text \<open>
  C2 (the code departs from the claim). resetMap does not complete. Before
  \<open>mapManager.init\<close> has run, \<open>map\<close> is undefined and \<open>map.setView\<close> is a TypeError.
  After it, line 750 reads \<open>provinceBoundaryLayer\<close>, which nothing declares (the
  variables declared at lines 21 and 22 are \<open>provinceBoundariesLayer\<close> and
  \<open>cityBoundariesLayer\<close>): a ReferenceError, thrown before the selection, the selectors
  and the info panel are reset.
\<close>

theorem resetMap_throws:
  "resetMap fresh_page = (Some TypeError, fresh_page) \<and>
   resetMap ready_page = (Some (ReferenceError ''provinceBoundaryLayer''), ready_page)"
  by (simp add: ready_page_def init_def fresh_page_def resetMap_def setView_def
        DEFAULT_COORDINATE_def valid_point_def dropProvinceLayer_def dropCityLayer_def
        dropDistrictLayer_def dropVillageLayer_def dropProvinceBoundary_def)

text \<open>
  C3 (the code departs from the claim). With province 31 selected, choosing the empty
  entry of the province control calls selectProvince with the empty code, which calls
  resetMap: the ReferenceError of line 750 rejects the call, and the selection still
  holds province 31.
\<close>

theorem selectProvince_none_keeps_selection:
  "fst (selectProvince (Some []) (run text_free [Init, SelectProvince (Some ''31'')] fresh_page))
     = Rejected (ReferenceError ''provinceBoundaryLayer'') \<and>
   selectedLocation
     (snd (selectProvince (Some []) (run text_free [Init, SelectProvince (Some ''31'')] fresh_page)))
     = \<lparr>province = Some ''31'', city = None, district = None, village = None\<rparr>"
  by (simp add: init_def fresh_page_def selectProvince_def given_def resetMap_def setView_def
        DEFAULT_COORDINATE_def valid_point_def dropProvinceLayer_def dropCityLayer_def
        dropDistrictLayer_def dropVillageLayer_def dropProvinceBoundary_def)

section \<open>Properties of the selection functions\<close>

lemma removeIfSet_on_map:
  "map_obj s = Some m \<Longrightarrow>
   removeIfSet v s = Inr (s\<lparr>map_obj := Some (m\<lparr>layers := without v (layers m)\<rparr>)\<rparr>)"
  by (simp add: removeIfSet_def removeLayer_def without_def split: option.splits)

lemma addTo_on_map:
  "map_obj s = Some m \<Longrightarrow> valid_overlay ov \<Longrightarrow>
   addTo ov s = Inr ((next_id s, ov),
                     s\<lparr>next_id := Suc (next_id s),
                       map_obj := Some (m\<lparr>layers := layers m @ [(next_id s, ov)]\<rparr>)\<rparr>)"
  by (simp add: addTo_def Let_def)

lemma addTo_invalid: "\<not> valid_overlay ov \<Longrightarrow> addTo ov s = Inl LeafletError"
  by (simp add: addTo_def Let_def)

lemma setView_on_map:
  "map_obj s = Some m \<Longrightarrow> valid_point p \<Longrightarrow>
   setView p z s = Inr (s\<lparr>map_obj := Some (m\<lparr>center := p, zoom := z\<rparr>)\<rparr>)"
  by (simp add: setView_def)

lemma showProvinceBoundary_on_map:
  "map_obj s = Some m \<Longrightarrow>
   showProvinceBoundary b d s =
     (let polygons = renderablePolygons b (getProp d ''path'');
          l = (next_id s, Boundary Province polygons) in
      if truthy d \<and> truthy (getProp d ''path'') then
        if polygons \<noteq> [] \<and> valid_overlay (Boundary Province polygons) then
          s\<lparr>next_id := Suc (next_id s),
            map_obj := Some (m\<lparr>layers := without (provinceBoundariesLayer s) (layers m) @ [l]\<rparr>),
            provinceBoundariesLayer := Some l\<rparr>
        else s\<lparr>map_obj := Some (m\<lparr>layers := without (provinceBoundariesLayer s) (layers m)\<rparr>)\<rparr>
      else s)"
  by (simp add: showProvinceBoundary_def removeIfSet_on_map addTo_on_map addTo_invalid Let_def)

lemma showCityBoundary_on_map:
  "map_obj s = Some m \<Longrightarrow>
   showCityBoundary b d s =
     (let polygons = renderablePolygons b (getProp d ''path'');
          l = (next_id s, Boundary City polygons) in
      if truthy d \<and> truthy (getProp d ''path'') then
        if polygons \<noteq> [] \<and> valid_overlay (Boundary City polygons) then
          s\<lparr>next_id := Suc (next_id s),
            map_obj := Some (m\<lparr>layers := without (cityBoundariesLayer s) (layers m) @ [l]\<rparr>),
            cityBoundariesLayer := Some l\<rparr>
        else s\<lparr>map_obj := Some (m\<lparr>layers := without (cityBoundariesLayer s) (layers m)\<rparr>)\<rparr>
      else s)"
  by (simp add: showCityBoundary_def removeIfSet_on_map addTo_on_map addTo_invalid Let_def)

lemma selectProvince_resume_placed:
  assumes "map_obj s = Some m" and "responseData resp = Inr (Some d)"
    and "parseFloat b (getProp d ''lat'') = Num x" and "parseFloat b (getProp d ''lng'') = Num y"
  shows "selectProvince_resume b c (Json resp) s =
     populateCitySelector (Some c) (showProvinceBoundary b d (showProvinceInfo d
       (s\<lparr>next_id := Suc (next_id s),
          map_obj := Some (m\<lparr>center := (Num x, Num y), zoom := 8,
             layers := without (currentProvinceLayer s) (layers m)
                      @ [(next_id s, Marker Province (Num x, Num y) (ProvincePopup d))]\<rparr>),
          currentProvinceLayer := Some (next_id s, Marker Province (Num x, Num y) (ProvincePopup d))\<rparr>)))"
  using assms
  by (cases s, cases m) (simp add: selectProvince_resume_def removeIfSet_on_map addTo_on_map setView_on_map valid_point_def Let_def)

lemma selectCity_resume_placed:
  assumes "map_obj s = Some m" and "responseData resp = Inr (Some d)"
    and "parseFloat b (getProp d ''lat'') = Num x" and "parseFloat b (getProp d ''lng'') = Num y"
  shows "selectCity_resume b c (Json resp) s =
     populateDistrictSelector (Some c) (showCityBoundary b d
       (s\<lparr>next_id := Suc (next_id s),
          map_obj := Some (m\<lparr>center := (Num x, Num y), zoom := 10,
             layers := without (currentCityLayer s) (layers m)
                      @ [(next_id s, Marker City (Num x, Num y) (CityPopup d))]\<rparr>),
          currentCityLayer := Some (next_id s, Marker City (Num x, Num y) (CityPopup d))\<rparr>))"
  using assms
  by (cases s, cases m) (simp add: selectCity_resume_def removeIfSet_on_map addTo_on_map setView_on_map valid_point_def Let_def)

lemma selectDistrict_cityGeo_placed:
  assumes "map_obj s = Some m" and "responseData resp = Inr (Some d)"
    and "parseFloat b (getProp d ''lat'') = Num x" and "parseFloat b (getProp d ''lng'') = Num y"
  shows "selectDistrict_cityGeo b c dd (Json resp) r1 r2 s =
     populateVillageSelector (Some c)
       (s\<lparr>next_id := Suc (next_id s),
          map_obj := Some (m\<lparr>center := (Num (x + (r1 - 0.5) * 0.1), Num (y + (r2 - 0.5) * 0.1)), zoom := 12,
             layers := without (currentDistrictLayer s) (layers m)
                      @ [(next_id s, Marker District (Num (x + (r1 - 0.5) * 0.1), Num (y + (r2 - 0.5) * 0.1)) (DistrictPopup dd))]\<rparr>),
          currentDistrictLayer := Some (next_id s, Marker District (Num (x + (r1 - 0.5) * 0.1), Num (y + (r2 - 0.5) * 0.1)) (DistrictPopup dd))\<rparr>)"
  using assms
  by (cases s, cases m) (simp add: selectDistrict_cityGeo_def removeIfSet_on_map addTo_on_map setView_on_map valid_point_def Let_def jitter_def)

lemma selectVillage_cityGeo_placed:
  assumes "map_obj s = Some m" and "responseData resp = Inr (Some d)"
    and "parseFloat b (getProp d ''lat'') = Num x" and "parseFloat b (getProp d ''lng'') = Num y"
  shows "selectVillage_cityGeo b dd (Json resp) r1 r2 s =
     (Settled,
       s\<lparr>next_id := Suc (next_id s),
          map_obj := Some (m\<lparr>center := (Num (x + (r1 - 0.5) * 0.2), Num (y + (r2 - 0.5) * 0.2)), zoom := 14,
             layers := without (currentVillageLayer s) (layers m)
                      @ [(next_id s, Marker Village (Num (x + (r1 - 0.5) * 0.2), Num (y + (r2 - 0.5) * 0.2)) (VillagePopup dd))]\<rparr>),
          currentVillageLayer := Some (next_id s, Marker Village (Num (x + (r1 - 0.5) * 0.2), Num (y + (r2 - 0.5) * 0.2)) (VillagePopup dd))\<rparr>)"
  using assms
  by (cases s, cases m) (simp add: selectVillage_cityGeo_def removeIfSet_on_map addTo_on_map setView_on_map valid_point_def Let_def jitter_def)


lemma clearVillageSelector_frame [simp]:
  "map_obj (clearVillageSelector s) = map_obj s \<and>
   next_id (clearVillageSelector s) = next_id s \<and>
   currentProvinceLayer (clearVillageSelector s) = currentProvinceLayer s \<and>
   currentCityLayer (clearVillageSelector s) = currentCityLayer s \<and>
   currentDistrictLayer (clearVillageSelector s) = currentDistrictLayer s \<and>
   currentVillageLayer (clearVillageSelector s) = currentVillageLayer s \<and>
   provinceBoundariesLayer (clearVillageSelector s) = provinceBoundariesLayer s \<and>
   cityBoundariesLayer (clearVillageSelector s) = cityBoundariesLayer s \<and>
   provinceBoundaryLayer (clearVillageSelector s) = provinceBoundaryLayer s \<and>
   cityBoundaryLayer (clearVillageSelector s) = cityBoundaryLayer s \<and>
   selectedLocation (clearVillageSelector s) = selectedLocation s \<and>
   el_province_info (clearVillageSelector s) = el_province_info s \<and>
   el_province_info_content (clearVillageSelector s) = el_province_info_content s \<and>
   el_province_select (clearVillageSelector s) = el_province_select s \<and>
   el_city_selector (clearVillageSelector s) = el_city_selector s \<and>
   el_district_selector (clearVillageSelector s) = el_district_selector s"
  by (simp add: clearVillageSelector_def split: option.splits)

lemma clearDistrictSelector_frame [simp]:
  "map_obj (clearDistrictSelector s) = map_obj s \<and>
   next_id (clearDistrictSelector s) = next_id s \<and>
   currentProvinceLayer (clearDistrictSelector s) = currentProvinceLayer s \<and>
   currentCityLayer (clearDistrictSelector s) = currentCityLayer s \<and>
   currentDistrictLayer (clearDistrictSelector s) = currentDistrictLayer s \<and>
   currentVillageLayer (clearDistrictSelector s) = currentVillageLayer s \<and>
   provinceBoundariesLayer (clearDistrictSelector s) = provinceBoundariesLayer s \<and>
   cityBoundariesLayer (clearDistrictSelector s) = cityBoundariesLayer s \<and>
   provinceBoundaryLayer (clearDistrictSelector s) = provinceBoundaryLayer s \<and>
   cityBoundaryLayer (clearDistrictSelector s) = cityBoundaryLayer s \<and>
   selectedLocation (clearDistrictSelector s) = selectedLocation s \<and>
   el_province_info (clearDistrictSelector s) = el_province_info s \<and>
   el_province_info_content (clearDistrictSelector s) = el_province_info_content s \<and>
   el_province_select (clearDistrictSelector s) = el_province_select s \<and>
   el_city_selector (clearDistrictSelector s) = el_city_selector s"
  by (simp add: clearDistrictSelector_def split: option.splits)

lemma clearCitySelector_frame [simp]:
  "map_obj (clearCitySelector s) = map_obj s \<and>
   next_id (clearCitySelector s) = next_id s \<and>
   currentProvinceLayer (clearCitySelector s) = currentProvinceLayer s \<and>
   currentCityLayer (clearCitySelector s) = currentCityLayer s \<and>
   currentDistrictLayer (clearCitySelector s) = currentDistrictLayer s \<and>
   currentVillageLayer (clearCitySelector s) = currentVillageLayer s \<and>
   provinceBoundariesLayer (clearCitySelector s) = provinceBoundariesLayer s \<and>
   cityBoundariesLayer (clearCitySelector s) = cityBoundariesLayer s \<and>
   provinceBoundaryLayer (clearCitySelector s) = provinceBoundaryLayer s \<and>
   cityBoundaryLayer (clearCitySelector s) = cityBoundaryLayer s \<and>
   selectedLocation (clearCitySelector s) = selectedLocation s \<and>
   el_province_info (clearCitySelector s) = el_province_info s \<and>
   el_province_info_content (clearCitySelector s) = el_province_info_content s \<and>
   el_province_select (clearCitySelector s) = el_province_select s"
  by (simp add: clearCitySelector_def split: option.splits)

lemma populateCitySelector_frame [simp]:
  "map_obj (snd (populateCitySelector c s)) = map_obj s \<and>
   next_id (snd (populateCitySelector c s)) = next_id s \<and>
   currentProvinceLayer (snd (populateCitySelector c s)) = currentProvinceLayer s \<and>
   currentCityLayer (snd (populateCitySelector c s)) = currentCityLayer s \<and>
   currentDistrictLayer (snd (populateCitySelector c s)) = currentDistrictLayer s \<and>
   currentVillageLayer (snd (populateCitySelector c s)) = currentVillageLayer s \<and>
   provinceBoundariesLayer (snd (populateCitySelector c s)) = provinceBoundariesLayer s \<and>
   cityBoundariesLayer (snd (populateCitySelector c s)) = cityBoundariesLayer s \<and>
   provinceBoundaryLayer (snd (populateCitySelector c s)) = provinceBoundaryLayer s \<and>
   cityBoundaryLayer (snd (populateCitySelector c s)) = cityBoundaryLayer s \<and>
   selectedLocation (snd (populateCitySelector c s)) = selectedLocation s \<and>
   el_province_info (snd (populateCitySelector c s)) = el_province_info s \<and>
   el_province_info_content (snd (populateCitySelector c s)) = el_province_info_content s \<and>
   el_province_select (snd (populateCitySelector c s)) = el_province_select s"
  by (simp add: populateCitySelector_def split: option.splits)

lemma populateDistrictSelector_frame [simp]:
  "map_obj (snd (populateDistrictSelector c s)) = map_obj s \<and>
   next_id (snd (populateDistrictSelector c s)) = next_id s \<and>
   currentProvinceLayer (snd (populateDistrictSelector c s)) = currentProvinceLayer s \<and>
   currentCityLayer (snd (populateDistrictSelector c s)) = currentCityLayer s \<and>
   currentDistrictLayer (snd (populateDistrictSelector c s)) = currentDistrictLayer s \<and>
   currentVillageLayer (snd (populateDistrictSelector c s)) = currentVillageLayer s \<and>
   provinceBoundariesLayer (snd (populateDistrictSelector c s)) = provinceBoundariesLayer s \<and>
   cityBoundariesLayer (snd (populateDistrictSelector c s)) = cityBoundariesLayer s \<and>
   provinceBoundaryLayer (snd (populateDistrictSelector c s)) = provinceBoundaryLayer s \<and>
   cityBoundaryLayer (snd (populateDistrictSelector c s)) = cityBoundaryLayer s \<and>
   selectedLocation (snd (populateDistrictSelector c s)) = selectedLocation s \<and>
   el_province_info (snd (populateDistrictSelector c s)) = el_province_info s \<and>
   el_province_info_content (snd (populateDistrictSelector c s)) = el_province_info_content s \<and>
   el_province_select (snd (populateDistrictSelector c s)) = el_province_select s \<and>
   el_city_selector (snd (populateDistrictSelector c s)) = el_city_selector s"
  by (simp add: populateDistrictSelector_def split: option.splits)

lemma populateVillageSelector_frame [simp]:
  "map_obj (snd (populateVillageSelector c s)) = map_obj s \<and>
   next_id (snd (populateVillageSelector c s)) = next_id s \<and>
   currentProvinceLayer (snd (populateVillageSelector c s)) = currentProvinceLayer s \<and>
   currentCityLayer (snd (populateVillageSelector c s)) = currentCityLayer s \<and>
   currentDistrictLayer (snd (populateVillageSelector c s)) = currentDistrictLayer s \<and>
   currentVillageLayer (snd (populateVillageSelector c s)) = currentVillageLayer s \<and>
   provinceBoundariesLayer (snd (populateVillageSelector c s)) = provinceBoundariesLayer s \<and>
   cityBoundariesLayer (snd (populateVillageSelector c s)) = cityBoundariesLayer s \<and>
   provinceBoundaryLayer (snd (populateVillageSelector c s)) = provinceBoundaryLayer s \<and>
   cityBoundaryLayer (snd (populateVillageSelector c s)) = cityBoundaryLayer s \<and>
   selectedLocation (snd (populateVillageSelector c s)) = selectedLocation s \<and>
   el_province_info (snd (populateVillageSelector c s)) = el_province_info s \<and>
   el_province_info_content (snd (populateVillageSelector c s)) = el_province_info_content s \<and>
   el_province_select (snd (populateVillageSelector c s)) = el_province_select s \<and>
   el_city_selector (snd (populateVillageSelector c s)) = el_city_selector s \<and>
   el_district_selector (snd (populateVillageSelector c s)) = el_district_selector s"
  by (simp add: populateVillageSelector_def split: option.splits)

lemma populateCitySelector_resume_frame [simp]:
  "map_obj (populateCitySelector_resume r s) = map_obj s \<and>
   next_id (populateCitySelector_resume r s) = next_id s \<and>
   currentProvinceLayer (populateCitySelector_resume r s) = currentProvinceLayer s \<and>
   currentCityLayer (populateCitySelector_resume r s) = currentCityLayer s \<and>
   currentDistrictLayer (populateCitySelector_resume r s) = currentDistrictLayer s \<and>
   currentVillageLayer (populateCitySelector_resume r s) = currentVillageLayer s \<and>
   provinceBoundariesLayer (populateCitySelector_resume r s) = provinceBoundariesLayer s \<and>
   cityBoundariesLayer (populateCitySelector_resume r s) = cityBoundariesLayer s \<and>
   provinceBoundaryLayer (populateCitySelector_resume r s) = provinceBoundaryLayer s \<and>
   cityBoundaryLayer (populateCitySelector_resume r s) = cityBoundaryLayer s \<and>
   selectedLocation (populateCitySelector_resume r s) = selectedLocation s \<and>
   el_province_info (populateCitySelector_resume r s) = el_province_info s \<and>
   el_province_info_content (populateCitySelector_resume r s) = el_province_info_content s \<and>
   el_province_select (populateCitySelector_resume r s) = el_province_select s \<and>
   el_district_selector (populateCitySelector_resume r s) = el_district_selector s \<and>
   el_village_selector (populateCitySelector_resume r s) = el_village_selector s"
  by (simp add: populateCitySelector_resume_def split: option.splits)

lemma populateDistrictSelector_resume_frame [simp]:
  "map_obj (populateDistrictSelector_resume r s) = map_obj s \<and>
   next_id (populateDistrictSelector_resume r s) = next_id s \<and>
   currentProvinceLayer (populateDistrictSelector_resume r s) = currentProvinceLayer s \<and>
   currentCityLayer (populateDistrictSelector_resume r s) = currentCityLayer s \<and>
   currentDistrictLayer (populateDistrictSelector_resume r s) = currentDistrictLayer s \<and>
   currentVillageLayer (populateDistrictSelector_resume r s) = currentVillageLayer s \<and>
   provinceBoundariesLayer (populateDistrictSelector_resume r s) = provinceBoundariesLayer s \<and>
   cityBoundariesLayer (populateDistrictSelector_resume r s) = cityBoundariesLayer s \<and>
   provinceBoundaryLayer (populateDistrictSelector_resume r s) = provinceBoundaryLayer s \<and>
   cityBoundaryLayer (populateDistrictSelector_resume r s) = cityBoundaryLayer s \<and>
   selectedLocation (populateDistrictSelector_resume r s) = selectedLocation s \<and>
   el_province_info (populateDistrictSelector_resume r s) = el_province_info s \<and>
   el_province_info_content (populateDistrictSelector_resume r s) = el_province_info_content s \<and>
   el_province_select (populateDistrictSelector_resume r s) = el_province_select s \<and>
   el_city_selector (populateDistrictSelector_resume r s) = el_city_selector s \<and>
   el_village_selector (populateDistrictSelector_resume r s) = el_village_selector s"
  by (simp add: populateDistrictSelector_resume_def split: option.splits)

lemma populateVillageSelector_resume_frame [simp]:
  "map_obj (populateVillageSelector_resume r s) = map_obj s \<and>
   next_id (populateVillageSelector_resume r s) = next_id s \<and>
   currentProvinceLayer (populateVillageSelector_resume r s) = currentProvinceLayer s \<and>
   currentCityLayer (populateVillageSelector_resume r s) = currentCityLayer s \<and>
   currentDistrictLayer (populateVillageSelector_resume r s) = currentDistrictLayer s \<and>
   currentVillageLayer (populateVillageSelector_resume r s) = currentVillageLayer s \<and>
   provinceBoundariesLayer (populateVillageSelector_resume r s) = provinceBoundariesLayer s \<and>
   cityBoundariesLayer (populateVillageSelector_resume r s) = cityBoundariesLayer s \<and>
   provinceBoundaryLayer (populateVillageSelector_resume r s) = provinceBoundaryLayer s \<and>
   cityBoundaryLayer (populateVillageSelector_resume r s) = cityBoundaryLayer s \<and>
   selectedLocation (populateVillageSelector_resume r s) = selectedLocation s \<and>
   el_province_info (populateVillageSelector_resume r s) = el_province_info s \<and>
   el_province_info_content (populateVillageSelector_resume r s) = el_province_info_content s \<and>
   el_province_select (populateVillageSelector_resume r s) = el_province_select s \<and>
   el_city_selector (populateVillageSelector_resume r s) = el_city_selector s \<and>
   el_district_selector (populateVillageSelector_resume r s) = el_district_selector s"
  by (simp add: populateVillageSelector_resume_def split: option.splits)

lemma showProvinceInfo_frame [simp]:
  "map_obj (showProvinceInfo d s) = map_obj s \<and>
   next_id (showProvinceInfo d s) = next_id s \<and>
   currentProvinceLayer (showProvinceInfo d s) = currentProvinceLayer s \<and>
   currentCityLayer (showProvinceInfo d s) = currentCityLayer s \<and>
   currentDistrictLayer (showProvinceInfo d s) = currentDistrictLayer s \<and>
   currentVillageLayer (showProvinceInfo d s) = currentVillageLayer s \<and>
   provinceBoundariesLayer (showProvinceInfo d s) = provinceBoundariesLayer s \<and>
   cityBoundariesLayer (showProvinceInfo d s) = cityBoundariesLayer s \<and>
   provinceBoundaryLayer (showProvinceInfo d s) = provinceBoundaryLayer s \<and>
   cityBoundaryLayer (showProvinceInfo d s) = cityBoundaryLayer s \<and>
   selectedLocation (showProvinceInfo d s) = selectedLocation s \<and>
   el_province_select (showProvinceInfo d s) = el_province_select s \<and>
   el_city_selector (showProvinceInfo d s) = el_city_selector s \<and>
   el_district_selector (showProvinceInfo d s) = el_district_selector s \<and>
   el_village_selector (showProvinceInfo d s) = el_village_selector s"
  by (simp add: showProvinceInfo_def split: option.splits)

lemma provinceFailed_frame [simp]:
  "map_obj (provinceFailed s) = map_obj s \<and>
   next_id (provinceFailed s) = next_id s \<and>
   currentProvinceLayer (provinceFailed s) = currentProvinceLayer s \<and>
   currentCityLayer (provinceFailed s) = currentCityLayer s \<and>
   currentDistrictLayer (provinceFailed s) = currentDistrictLayer s \<and>
   currentVillageLayer (provinceFailed s) = currentVillageLayer s \<and>
   provinceBoundariesLayer (provinceFailed s) = provinceBoundariesLayer s \<and>
   cityBoundariesLayer (provinceFailed s) = cityBoundariesLayer s \<and>
   provinceBoundaryLayer (provinceFailed s) = provinceBoundaryLayer s \<and>
   cityBoundaryLayer (provinceFailed s) = cityBoundaryLayer s \<and>
   selectedLocation (provinceFailed s) = selectedLocation s \<and>
   el_province_info (provinceFailed s) = el_province_info s \<and>
   el_province_select (provinceFailed s) = el_province_select s \<and>
   el_city_selector (provinceFailed s) = el_city_selector s \<and>
   el_district_selector (provinceFailed s) = el_district_selector s \<and>
   el_village_selector (provinceFailed s) = el_village_selector s"
  by (simp add: provinceFailed_def split: option.splits)

lemma showProvinceBoundary_no_map: "map_obj s = None \<Longrightarrow> showProvinceBoundary b d s = s"
  by (simp add: showProvinceBoundary_def removeIfSet_def removeLayer_def addTo_def Let_def
      split: option.splits)

lemma showCityBoundary_no_map: "map_obj s = None \<Longrightarrow> showCityBoundary b d s = s"
  by (simp add: showCityBoundary_def removeIfSet_def removeLayer_def addTo_def Let_def
      split: option.splits)

lemma showProvinceBoundary_frame [simp]:
  "currentProvinceLayer (showProvinceBoundary b d s) = currentProvinceLayer s \<and>
   currentCityLayer (showProvinceBoundary b d s) = currentCityLayer s \<and>
   currentDistrictLayer (showProvinceBoundary b d s) = currentDistrictLayer s \<and>
   currentVillageLayer (showProvinceBoundary b d s) = currentVillageLayer s \<and>
   cityBoundariesLayer (showProvinceBoundary b d s) = cityBoundariesLayer s \<and>
   provinceBoundaryLayer (showProvinceBoundary b d s) = provinceBoundaryLayer s \<and>
   cityBoundaryLayer (showProvinceBoundary b d s) = cityBoundaryLayer s \<and>
   selectedLocation (showProvinceBoundary b d s) = selectedLocation s \<and>
   el_province_info (showProvinceBoundary b d s) = el_province_info s \<and>
   el_province_info_content (showProvinceBoundary b d s) = el_province_info_content s \<and>
   el_province_select (showProvinceBoundary b d s) = el_province_select s \<and>
   el_city_selector (showProvinceBoundary b d s) = el_city_selector s \<and>
   el_district_selector (showProvinceBoundary b d s) = el_district_selector s \<and>
   el_village_selector (showProvinceBoundary b d s) = el_village_selector s"
  by (cases "map_obj s") (simp_all add: showProvinceBoundary_no_map showProvinceBoundary_on_map Let_def)

lemma showCityBoundary_frame [simp]:
  "currentProvinceLayer (showCityBoundary b d s) = currentProvinceLayer s \<and>
   currentCityLayer (showCityBoundary b d s) = currentCityLayer s \<and>
   currentDistrictLayer (showCityBoundary b d s) = currentDistrictLayer s \<and>
   currentVillageLayer (showCityBoundary b d s) = currentVillageLayer s \<and>
   provinceBoundariesLayer (showCityBoundary b d s) = provinceBoundariesLayer s \<and>
   provinceBoundaryLayer (showCityBoundary b d s) = provinceBoundaryLayer s \<and>
   cityBoundaryLayer (showCityBoundary b d s) = cityBoundaryLayer s \<and>
   selectedLocation (showCityBoundary b d s) = selectedLocation s \<and>
   el_province_info (showCityBoundary b d s) = el_province_info s \<and>
   el_province_info_content (showCityBoundary b d s) = el_province_info_content s \<and>
   el_province_select (showCityBoundary b d s) = el_province_select s \<and>
   el_city_selector (showCityBoundary b d s) = el_city_selector s \<and>
   el_district_selector (showCityBoundary b d s) = el_district_selector s \<and>
   el_village_selector (showCityBoundary b d s) = el_village_selector s"
  by (cases "map_obj s") (simp_all add: showCityBoundary_no_map showCityBoundary_on_map Let_def)


lemma viewport_showProvinceInfo [simp]: "viewport (showProvinceInfo d s) = viewport s"
  by (simp add: viewport_def)

lemma viewport_populateCitySelector [simp]: "viewport (snd (populateCitySelector c s)) = viewport s"
  by (simp add: viewport_def)

lemma viewport_populateDistrictSelector [simp]:
  "viewport (snd (populateDistrictSelector c s)) = viewport s"
  by (simp add: viewport_def)

lemma viewport_populateVillageSelector [simp]:
  "viewport (snd (populateVillageSelector c s)) = viewport s"
  by (simp add: viewport_def)

lemma viewport_showProvinceBoundary [simp]: "viewport (showProvinceBoundary b d s) = viewport s"
  by (cases "map_obj s")
     (simp_all add: showProvinceBoundary_no_map showProvinceBoundary_on_map Let_def viewport_def)

lemma viewport_showCityBoundary [simp]: "viewport (showCityBoundary b d s) = viewport s"
  by (cases "map_obj s")
     (simp_all add: showCityBoundary_no_map showCityBoundary_on_map Let_def viewport_def)




lemma sample_response [simp]:
  "responseData (ok_response (geo_at la lo)) = Inr (Some (geo_at la lo))"
  "parseFloat b (getProp (geo_at la lo) ''lat'') = Num la"
  "parseFloat b (getProp (geo_at la lo) ''lng'') = Num lo"
  "truthy (getProp (geo_at la lo) ''path'') = False"
  by (simp_all add: responseData_def ok_response_def geo_at_def getProp_def)

lemma ready_page_map: "map_obj ready_page \<noteq> None"
  by (simp add: ready_page_def init_def fresh_page_def)


























section \<open>One overlay of a kind per level\<close>

lemma tracked_cong:
  "map_obj s' = map_obj s \<Longrightarrow> next_id s' = next_id s \<Longrightarrow>
   currentProvinceLayer s' = currentProvinceLayer s \<Longrightarrow>
   currentCityLayer s' = currentCityLayer s \<Longrightarrow>
   currentDistrictLayer s' = currentDistrictLayer s \<Longrightarrow>
   currentVillageLayer s' = currentVillageLayer s \<Longrightarrow>
   provinceBoundariesLayer s' = provinceBoundariesLayer s \<Longrightarrow>
   cityBoundariesLayer s' = cityBoundariesLayer s \<Longrightarrow>
   tracked s' = tracked s"
proof -
  assume a: "map_obj s' = map_obj s" "next_id s' = next_id s"
    "currentProvinceLayer s' = currentProvinceLayer s"
    "currentCityLayer s' = currentCityLayer s"
    "currentDistrictLayer s' = currentDistrictLayer s"
    "currentVillageLayer s' = currentVillageLayer s"
    "provinceBoundariesLayer s' = provinceBoundariesLayer s"
    "cityBoundariesLayer s' = cityBoundariesLayer s"
  have h: "holder ov s' = holder ov s" for ov
    using a by (cases "(ov, s)" rule: holder.cases) simp_all
  show ?thesis using a by (simp add: tracked_def layers_on_map_def h)
qed

lemma holder_cong:
  "currentProvinceLayer s' = currentProvinceLayer s \<Longrightarrow>
   currentCityLayer s' = currentCityLayer s \<Longrightarrow>
   currentDistrictLayer s' = currentDistrictLayer s \<Longrightarrow>
   currentVillageLayer s' = currentVillageLayer s \<Longrightarrow>
   provinceBoundariesLayer s' = provinceBoundariesLayer s \<Longrightarrow>
   cityBoundariesLayer s' = cityBoundariesLayer s \<Longrightarrow>
   holder ov s' = holder ov s"
  by (cases "(ov, s)" rule: holder.cases) simp_all

lemma filter_le_one:
  "distinct xs \<Longrightarrow> \<forall>x \<in> set xs. P x \<longrightarrow> x = a \<Longrightarrow> length (filter P xs) \<le> 1"
proof -
  assume d: "distinct xs" and e: "\<forall>x \<in> set xs. P x \<longrightarrow> x = a"
  have "distinct (filter P xs)" using d by simp
  moreover have "\<forall>x \<in> set (filter P xs). x = a" using e by simp
  ultimately show ?thesis
    by (cases "filter P xs" rule: list.exhaust; cases "tl (filter P xs)") auto
qed

lemma is_marker_of_holder:
  "is_marker_of lv l \<Longrightarrow> holder (snd l) s = holder (Marker lv undefined undefined) s"
  by (cases "(lv, l)" rule: is_marker_of.cases; cases lv) auto

lemma is_boundary_of_holder:
  "is_boundary_of lv l \<Longrightarrow> holder (snd l) s = holder (Boundary lv []) s"
  by (cases "(lv, l)" rule: is_boundary_of.cases; cases lv) auto

lemma tracked_counts:
  assumes "tracked s"
  shows "length (markers_of lv s) \<le> 1 \<and> length (boundaries_of lv s) \<le> 1"
proof -
  from assms have d: "distinct (layers_on_map s)"
    and h: "\<forall>l \<in> set (layers_on_map s). holder (snd l) s = Some l"
    by (auto simp: tracked_def list_all_iff distinct_map)
  have "\<forall>l \<in> set (layers_on_map s). is_marker_of lv l \<longrightarrow>
          l = the (holder (Marker lv undefined undefined) s)"
    using h is_marker_of_holder by (metis option.sel)
  then have m: "length (markers_of lv s) \<le> 1"
    unfolding markers_of_def using d by (rule filter_le_one [rotated])
  have "\<forall>l \<in> set (layers_on_map s). is_boundary_of lv l \<longrightarrow>
          l = the (holder (Boundary lv []) s)"
    using h is_boundary_of_holder by (metis option.sel)
  then have "length (boundaries_of lv s) \<le> 1"
    unfolding boundaries_of_def using d by (rule filter_le_one [rotated])
  with m show ?thesis by simp
qed

lemma tracked_cong_vars:
  "layers_on_map s' = layers_on_map s \<Longrightarrow> next_id s' = next_id s \<Longrightarrow>
   layer_vars s' = layer_vars s \<Longrightarrow> tracked s' = tracked s"
proof -
  assume a: "layers_on_map s' = layers_on_map s" "next_id s' = next_id s"
    and v: "layer_vars s' = layer_vars s"
  have h: "holder ov s' = holder ov s" for ov
    using v by (intro holder_cong) (simp_all add: layer_vars_def)
  show ?thesis using a v by (simp add: tracked_def h layer_vars_def)
qed

lemma removeIfSet_effect:
  "removeIfSet v s = Inr s1 \<Longrightarrow>
   layers_on_map s1 = without v (layers_on_map s) \<and> next_id s1 = next_id s \<and>
   layer_vars s1 = layer_vars s"
  by (auto simp: removeIfSet_def removeLayer_def layers_on_map_def without_def layer_vars_def
      split: option.splits)

lemma removeLayer_effect:
  "removeLayer l s = Inr s1 \<Longrightarrow>
   layers_on_map s1 = without (Some l) (layers_on_map s) \<and> next_id s1 = next_id s \<and>
   layer_vars s1 = layer_vars s"
  by (auto simp: removeLayer_def layers_on_map_def without_def layer_vars_def
      split: option.splits)

lemma addTo_effect:
  "addTo ov s = Inr (l, s1) \<Longrightarrow>
   l = (next_id s, ov) \<and> layers_on_map s1 = layers_on_map s @ [l] \<and>
   next_id s1 = Suc (next_id s) \<and> layer_vars s1 = layer_vars s"
  by (auto simp: addTo_def layers_on_map_def layer_vars_def Let_def
      split: option.splits if_splits)

lemma setView_effect:
  "setView p z s = Inr s1 \<Longrightarrow>
   layers_on_map s1 = layers_on_map s \<and> next_id s1 = next_id s \<and>
   layer_vars s1 = layer_vars s"
  by (auto simp: setView_def layers_on_map_def layer_vars_def split: option.splits if_splits)

lemma set_without: "set (without v ls) \<subseteq> set ls"
  by (auto simp: without_def split: option.splits)

lemma distinct_without: "distinct (map fst ls) \<Longrightarrow> distinct (map fst (without v ls))"
  by (auto simp: without_def distinct_map_filter split: option.splits)

lemma tracked_remove:
  assumes "tracked s" and "layers_on_map s1 = without v (layers_on_map s)"
    and "next_id s1 = next_id s" and "layer_vars s1 = layer_vars s"
  shows "tracked s1"
proof -
  have h: "holder ov s1 = holder ov s" for ov
    using assms(4) by (intro holder_cong) (simp_all add: layer_vars_def)
  from assms(1) have "list_all (\<lambda>l. fst l < next_id s \<and> holder (snd l) s = Some l)
      (without v (layers_on_map s))"
    using set_without [of v "layers_on_map s"] by (auto simp: tracked_def list_all_iff)
  with assms show ?thesis
    by (simp add: tracked_def h distinct_without layer_vars_def)
qed

lemma tracked_removeIfSet: "removeIfSet v s = Inr s1 \<Longrightarrow> tracked s \<Longrightarrow> tracked s1"
  using removeIfSet_effect tracked_remove by blast

lemma tracked_removeLayer: "removeLayer l s = Inr s1 \<Longrightarrow> tracked s \<Longrightarrow> tracked s1"
  using removeLayer_effect tracked_remove by blast

lemma tracked_setView: "setView p z s = Inr s1 \<Longrightarrow> tracked s \<Longrightarrow> tracked s1"
  using setView_effect tracked_cong_vars by blast

lemma below_Suc: "below n v \<Longrightarrow> below (Suc n) v"
  by (cases v) (auto simp: below_def)

lemma tracked_place:
  assumes t: "tracked s"
    and ls: "layers_on_map s' = without (holder ov s) (layers_on_map s) @ [(next_id s, ov)]"
    and n: "next_id s' = Suc (next_id s)"
    and hv: "holder ov s' = Some (next_id s, ov)"
    and others: "\<And>ov'. holder ov' s' = holder ov' s \<or>
                   (holder ov' s' = Some (next_id s, ov) \<and> holder ov' s = holder ov s)"
    and b: "below (Suc (next_id s)) (currentProvinceLayer s')"
      "below (Suc (next_id s)) (currentCityLayer s')"
      "below (Suc (next_id s)) (currentDistrictLayer s')"
      "below (Suc (next_id s)) (currentVillageLayer s')"
      "below (Suc (next_id s)) (provinceBoundariesLayer s')"
      "below (Suc (next_id s)) (cityBoundariesLayer s')"
  shows "tracked s'"
proof -
  let ?old = "without (holder ov s) (layers_on_map s)"
  from t have d: "distinct (map fst (layers_on_map s))"
    and a: "\<forall>l \<in> set (layers_on_map s). fst l < next_id s \<and> holder (snd l) s = Some l"
    by (auto simp: tracked_def list_all_iff)
  have sub: "set ?old \<subseteq> set (layers_on_map s)" by (rule set_without)
  have fresh: "next_id s \<notin> fst ` set ?old" using a sub by fastforce
  have d': "distinct (map fst (?old @ [(next_id s, ov)]))"
    using distinct_without [OF d, of "holder ov s"] fresh by simp
  have kept: "holder (snd l) s' = Some l" if l: "l \<in> set ?old" for l
  proof -
    from l sub a have hl: "holder (snd l) s = Some l" by auto
    from others [of "snd l"] show ?thesis
    proof
      assume "holder (snd l) s' = holder (snd l) s"
      with hl show ?thesis by simp
    next
      assume "holder (snd l) s' = Some (next_id s, ov) \<and> holder (snd l) s = holder ov s"
      with hl have "holder ov s = Some l" by simp
      with l have False by (simp add: without_def)
      then show ?thesis ..
    qed
  qed
  have "list_all (\<lambda>l. fst l < next_id s' \<and> holder (snd l) s' = Some l) (layers_on_map s')"
    using a sub kept hv by (auto simp: ls n list_all_iff less_Suc_eq)
  with d' b show ?thesis by (simp add: tracked_def ls n)
qed

lemma tracked_below:
  "tracked s \<Longrightarrow>
   below (next_id s) (currentProvinceLayer s) \<and> below (next_id s) (currentCityLayer s) \<and>
   below (next_id s) (currentDistrictLayer s) \<and> below (next_id s) (currentVillageLayer s) \<and>
   below (next_id s) (provinceBoundariesLayer s) \<and> below (next_id s) (cityBoundariesLayer s)"
  by (simp add: tracked_def)

lemma below_new: "below (Suc n) (Some (n, ov))"
  by (simp add: below_def)

lemma place_province_marker:
  assumes t: "tracked s" and r: "removeIfSet (currentProvinceLayer s) s = Inr s1"
    and a: "addTo (Marker Province p pp) s1 = Inr (l, s2)"
  shows "tracked (s2\<lparr>currentProvinceLayer := Some l\<rparr>) \<and>
         l \<in> set (layers_on_map (s2\<lparr>currentProvinceLayer := Some l\<rparr>)) \<and>
         l = (next_id s, Marker Province p pp) \<and>
         next_id (s2\<lparr>currentProvinceLayer := Some l\<rparr>) = Suc (next_id s)"
proof -
  note e1 = removeIfSet_effect [OF r] and e2 = addTo_effect [OF a]
  let ?s' = "s2\<lparr>currentProvinceLayer := Some l\<rparr>"
  have l: "l = (next_id s, Marker Province p pp)" using e1 e2 by simp
  have ls: "layers_on_map ?s' = without (holder (Marker Province p pp) s) (layers_on_map s)
              @ [(next_id s, Marker Province p pp)]"
    using e1 e2 by (simp add: layers_on_map_def)
  have n: "next_id ?s' = Suc (next_id s)" using e1 e2 by simp
  have v: "layer_vars s2 = layer_vars s" using e1 e2 by simp
  have o: "holder ov' ?s' = holder ov' s \<or>
           (holder ov' ?s' = Some (next_id s, Marker Province p pp) \<and>
            holder ov' s = holder (Marker Province p pp) s)" for ov'
    using v l by (cases "(ov', s)" rule: holder.cases) (simp_all add: layer_vars_def)
  have "tracked ?s'"
    using tracked_below [OF t] v l
    by (intro tracked_place [OF t ls n _ o])
       (simp_all add: layer_vars_def below_Suc below_new)
  with l ls n show ?thesis by simp
qed

lemma place_city_marker:
  assumes t: "tracked s" and r: "removeIfSet (currentCityLayer s) s = Inr s1"
    and a: "addTo (Marker City p pp) s1 = Inr (l, s2)"
  shows "tracked (s2\<lparr>currentCityLayer := Some l\<rparr>) \<and>
         l \<in> set (layers_on_map (s2\<lparr>currentCityLayer := Some l\<rparr>)) \<and>
         l = (next_id s, Marker City p pp) \<and>
         next_id (s2\<lparr>currentCityLayer := Some l\<rparr>) = Suc (next_id s)"
proof -
  note e1 = removeIfSet_effect [OF r] and e2 = addTo_effect [OF a]
  let ?s' = "s2\<lparr>currentCityLayer := Some l\<rparr>"
  have l: "l = (next_id s, Marker City p pp)" using e1 e2 by simp
  have ls: "layers_on_map ?s' = without (holder (Marker City p pp) s) (layers_on_map s)
              @ [(next_id s, Marker City p pp)]"
    using e1 e2 by (simp add: layers_on_map_def)
  have n: "next_id ?s' = Suc (next_id s)" using e1 e2 by simp
  have v: "layer_vars s2 = layer_vars s" using e1 e2 by simp
  have o: "holder ov' ?s' = holder ov' s \<or>
           (holder ov' ?s' = Some (next_id s, Marker City p pp) \<and>
            holder ov' s = holder (Marker City p pp) s)" for ov'
    using v l by (cases "(ov', s)" rule: holder.cases) (simp_all add: layer_vars_def)
  have "tracked ?s'"
    using tracked_below [OF t] v l
    by (intro tracked_place [OF t ls n _ o])
       (simp_all add: layer_vars_def below_Suc below_new)
  with l ls n show ?thesis by simp
qed

lemma place_district_marker:
  assumes t: "tracked s" and r: "removeIfSet (currentDistrictLayer s) s = Inr s1"
    and a: "addTo (Marker District p pp) s1 = Inr (l, s2)"
  shows "tracked (s2\<lparr>currentDistrictLayer := Some l\<rparr>) \<and>
         l \<in> set (layers_on_map (s2\<lparr>currentDistrictLayer := Some l\<rparr>)) \<and>
         l = (next_id s, Marker District p pp) \<and>
         next_id (s2\<lparr>currentDistrictLayer := Some l\<rparr>) = Suc (next_id s)"
proof -
  note e1 = removeIfSet_effect [OF r] and e2 = addTo_effect [OF a]
  let ?s' = "s2\<lparr>currentDistrictLayer := Some l\<rparr>"
  have l: "l = (next_id s, Marker District p pp)" using e1 e2 by simp
  have ls: "layers_on_map ?s' = without (holder (Marker District p pp) s) (layers_on_map s)
              @ [(next_id s, Marker District p pp)]"
    using e1 e2 by (simp add: layers_on_map_def)
  have n: "next_id ?s' = Suc (next_id s)" using e1 e2 by simp
  have v: "layer_vars s2 = layer_vars s" using e1 e2 by simp
  have o: "holder ov' ?s' = holder ov' s \<or>
           (holder ov' ?s' = Some (next_id s, Marker District p pp) \<and>
            holder ov' s = holder (Marker District p pp) s)" for ov'
    using v l by (cases "(ov', s)" rule: holder.cases) (simp_all add: layer_vars_def)
  have "tracked ?s'"
    using tracked_below [OF t] v l
    by (intro tracked_place [OF t ls n _ o])
       (simp_all add: layer_vars_def below_Suc below_new)
  with l ls n show ?thesis by simp
qed

lemma place_village_marker:
  assumes t: "tracked s" and r: "removeIfSet (currentVillageLayer s) s = Inr s1"
    and a: "addTo (Marker Village p pp) s1 = Inr (l, s2)"
  shows "tracked (s2\<lparr>currentVillageLayer := Some l\<rparr>) \<and>
         l \<in> set (layers_on_map (s2\<lparr>currentVillageLayer := Some l\<rparr>)) \<and>
         l = (next_id s, Marker Village p pp) \<and>
         next_id (s2\<lparr>currentVillageLayer := Some l\<rparr>) = Suc (next_id s)"
proof -
  note e1 = removeIfSet_effect [OF r] and e2 = addTo_effect [OF a]
  let ?s' = "s2\<lparr>currentVillageLayer := Some l\<rparr>"
  have l: "l = (next_id s, Marker Village p pp)" using e1 e2 by simp
  have ls: "layers_on_map ?s' = without (holder (Marker Village p pp) s) (layers_on_map s)
              @ [(next_id s, Marker Village p pp)]"
    using e1 e2 by (simp add: layers_on_map_def)
  have n: "next_id ?s' = Suc (next_id s)" using e1 e2 by simp
  have v: "layer_vars s2 = layer_vars s" using e1 e2 by simp
  have o: "holder ov' ?s' = holder ov' s \<or>
           (holder ov' ?s' = Some (next_id s, Marker Village p pp) \<and>
            holder ov' s = holder (Marker Village p pp) s)" for ov'
    using v l by (cases "(ov', s)" rule: holder.cases) (simp_all add: layer_vars_def)
  have "tracked ?s'"
    using tracked_below [OF t] v l
    by (intro tracked_place [OF t ls n _ o])
       (simp_all add: layer_vars_def below_Suc below_new)
  with l ls n show ?thesis by simp
qed

lemma place_province_boundary:
  assumes t: "tracked s" and r: "removeIfSet (provinceBoundariesLayer s) s = Inr s1"
    and a: "addTo (Boundary Province rs) s1 = Inr (l, s2)"
  shows "tracked (s2\<lparr>provinceBoundariesLayer := Some l\<rparr>) \<and>
         l \<in> set (layers_on_map (s2\<lparr>provinceBoundariesLayer := Some l\<rparr>)) \<and>
         l = (next_id s, Boundary Province rs) \<and>
         next_id (s2\<lparr>provinceBoundariesLayer := Some l\<rparr>) = Suc (next_id s)"
proof -
  note e1 = removeIfSet_effect [OF r] and e2 = addTo_effect [OF a]
  let ?s' = "s2\<lparr>provinceBoundariesLayer := Some l\<rparr>"
  have l: "l = (next_id s, Boundary Province rs)" using e1 e2 by simp
  have ls: "layers_on_map ?s' = without (holder (Boundary Province rs) s) (layers_on_map s)
              @ [(next_id s, Boundary Province rs)]"
    using e1 e2 by (simp add: layers_on_map_def)
  have n: "next_id ?s' = Suc (next_id s)" using e1 e2 by simp
  have v: "layer_vars s2 = layer_vars s" using e1 e2 by simp
  have o: "holder ov' ?s' = holder ov' s \<or>
           (holder ov' ?s' = Some (next_id s, Boundary Province rs) \<and>
            holder ov' s = holder (Boundary Province rs) s)" for ov'
    using v l by (cases "(ov', s)" rule: holder.cases) (simp_all add: layer_vars_def)
  have "tracked ?s'"
    using tracked_below [OF t] v l
    by (intro tracked_place [OF t ls n _ o])
       (simp_all add: layer_vars_def below_Suc below_new)
  with l ls n show ?thesis by simp
qed

lemma place_city_boundary:
  assumes t: "tracked s" and r: "removeIfSet (cityBoundariesLayer s) s = Inr s1"
    and a: "addTo (Boundary City rs) s1 = Inr (l, s2)"
  shows "tracked (s2\<lparr>cityBoundariesLayer := Some l\<rparr>) \<and>
         l \<in> set (layers_on_map (s2\<lparr>cityBoundariesLayer := Some l\<rparr>)) \<and>
         l = (next_id s, Boundary City rs) \<and>
         next_id (s2\<lparr>cityBoundariesLayer := Some l\<rparr>) = Suc (next_id s)"
proof -
  note e1 = removeIfSet_effect [OF r] and e2 = addTo_effect [OF a]
  let ?s' = "s2\<lparr>cityBoundariesLayer := Some l\<rparr>"
  have l: "l = (next_id s, Boundary City rs)" using e1 e2 by simp
  have ls: "layers_on_map ?s' = without (holder (Boundary City rs) s) (layers_on_map s)
              @ [(next_id s, Boundary City rs)]"
    using e1 e2 by (simp add: layers_on_map_def)
  have n: "next_id ?s' = Suc (next_id s)" using e1 e2 by simp
  have v: "layer_vars s2 = layer_vars s" using e1 e2 by simp
  have o: "holder ov' ?s' = holder ov' s \<or>
           (holder ov' ?s' = Some (next_id s, Boundary City rs) \<and>
            holder ov' s = holder (Boundary City rs) s)" for ov'
    using v l by (cases "(ov', s)" rule: holder.cases) (simp_all add: layer_vars_def)
  have "tracked ?s'"
    using tracked_below [OF t] v l
    by (intro tracked_place [OF t ls n _ o])
       (simp_all add: layer_vars_def below_Suc below_new)
  with l ls n show ?thesis by simp
qed

lemma tracked_dom [simp]:
  "tracked (clearVillageSelector s) = tracked s"
  "tracked (clearDistrictSelector s) = tracked s"
  "tracked (clearCitySelector s) = tracked s"
  "tracked (snd (populateCitySelector c s)) = tracked s"
  "tracked (snd (populateDistrictSelector c s)) = tracked s"
  "tracked (snd (populateVillageSelector c s)) = tracked s"
  "tracked (populateCitySelector_resume r s) = tracked s"
  "tracked (populateDistrictSelector_resume r s) = tracked s"
  "tracked (populateVillageSelector_resume r s) = tracked s"
  "tracked (showProvinceInfo d s) = tracked s"
  "tracked (provinceFailed s) = tracked s"
  by (rule tracked_cong; simp)+

lemma tracked_selection [simp]:
  "tracked (s\<lparr>selectedLocation := x\<rparr>) = tracked s"
  "tracked (s\<lparr>el_province_info_content := u, el_province_info := w, selectedLocation := x\<rparr>)
     = tracked s"
  by (rule tracked_cong; simp)+

lemma tracked_resetSelection [simp]: "tracked (resetSelection s) = tracked s"
  by (rule tracked_cong) (simp_all add: resetSelection_def)

lemma tracked_showProvinceBoundary:
  assumes "tracked s" shows "tracked (showProvinceBoundary b d s)"
proof (cases "removeIfSet (provinceBoundariesLayer s) s")
  case (Inl e)
  with assms show ?thesis by (simp add: showProvinceBoundary_def)
next
  case (Inr s1)
  note t1 = tracked_removeIfSet [OF Inr assms]
  show ?thesis
  proof (cases "addTo (Boundary Province (renderablePolygons b (getProp d ''path''))) s1")
    case (Inl e)
    with Inr t1 assms show ?thesis by (simp add: showProvinceBoundary_def Let_def)
  next
    case (Inr ls)
    obtain l s2 where ls: "ls = (l, s2)" by (cases ls)
    from place_province_boundary [OF assms \<open>removeIfSet (provinceBoundariesLayer s) s = Inr s1\<close>
        Inr [unfolded ls]]
    have "tracked (s2\<lparr>provinceBoundariesLayer := Some l\<rparr>)" by (rule conjunct1)
    with \<open>removeIfSet (provinceBoundariesLayer s) s = Inr s1\<close> Inr ls t1 assms show ?thesis
      by (simp add: showProvinceBoundary_def Let_def)
  qed
qed

lemma tracked_showCityBoundary:
  assumes "tracked s" shows "tracked (showCityBoundary b d s)"
proof (cases "removeIfSet (cityBoundariesLayer s) s")
  case (Inl e)
  with assms show ?thesis by (simp add: showCityBoundary_def)
next
  case (Inr s1)
  note t1 = tracked_removeIfSet [OF Inr assms]
  show ?thesis
  proof (cases "addTo (Boundary City (renderablePolygons b (getProp d ''path''))) s1")
    case (Inl e)
    with Inr t1 assms show ?thesis by (simp add: showCityBoundary_def Let_def)
  next
    case (Inr ls)
    obtain l s2 where ls: "ls = (l, s2)" by (cases ls)
    from place_city_boundary [OF assms \<open>removeIfSet (cityBoundariesLayer s) s = Inr s1\<close>
        Inr [unfolded ls]]
    have "tracked (s2\<lparr>cityBoundariesLayer := Some l\<rparr>)" by (rule conjunct1)
    with \<open>removeIfSet (cityBoundariesLayer s) s = Inr s1\<close> Inr ls t1 assms show ?thesis
      by (simp add: showCityBoundary_def Let_def)
  qed
qed

lemma tracked_selectProvince_resume:
  assumes t: "tracked s" shows "tracked (snd (selectProvince_resume b c r s))"
proof -
  have block: "tracked (snd
     (case removeIfSet (currentProvinceLayer s) s of
        Inl e \<Rightarrow> (Settled, provinceFailed s)
      | Inr s1 \<Rightarrow>
     (case addTo (Marker Province p pp) s1 of
        Inl e \<Rightarrow> (Settled, provinceFailed s1)
      | Inr (l, s2) \<Rightarrow>
     (let s3 = s2\<lparr>currentProvinceLayer := Some l\<rparr> in
     (case setView q 8 s3 of
        Inl e \<Rightarrow> (Settled, provinceFailed s3)
      | Inr s4 \<Rightarrow>
          populateCitySelector (Some c)
            (showProvinceBoundary b d (showProvinceInfo d s4)))))))" for p pp q d
  proof (cases "removeIfSet (currentProvinceLayer s) s")
    case (Inl e)
    with t show ?thesis by simp
  next
    case (Inr s1)
    note t1 = tracked_removeIfSet [OF Inr t]
    show ?thesis
    proof (cases "addTo (Marker Province p pp) s1")
      case (Inl e)
      with Inr t1 show ?thesis by simp
    next
      case (Inr ls)
      obtain l s2 where ls: "ls = (l, s2)" by (cases ls)
      from place_province_marker [OF t \<open>removeIfSet (currentProvinceLayer s) s = Inr s1\<close>
          Inr [unfolded ls]]
      have t3: "tracked (s2\<lparr>currentProvinceLayer := Some l\<rparr>)" by (rule conjunct1)
      show ?thesis
      proof (cases "setView q 8 (s2\<lparr>currentProvinceLayer := Some l\<rparr>)")
        case (Inl e)
        with \<open>removeIfSet (currentProvinceLayer s) s = Inr s1\<close> Inr ls t3
        show ?thesis by (simp add: Let_def)
      next
        case (Inr s4)
        from tracked_setView [OF Inr t3] have "tracked s4" .
        then have "tracked (showProvinceBoundary b d (showProvinceInfo d s4))"
          by (intro tracked_showProvinceBoundary) simp
        with \<open>removeIfSet (currentProvinceLayer s) s = Inr s1\<close>
          \<open>addTo (Marker Province p pp) s1 = Inr ls\<close> ls Inr
        show ?thesis by (simp add: Let_def)
      qed
    qed
  qed
  show ?thesis
    using t block
    by (simp add: selectProvince_resume_def Let_def
        split: fetched.splits sum.splits option.splits)
qed

lemma tracked_selectCity_resume:
  assumes t: "tracked s" shows "tracked (snd (selectCity_resume b c r s))"
proof -
  have block: "tracked (snd
     (case removeIfSet (currentCityLayer s) s of
        Inl e \<Rightarrow> (Settled, s)
      | Inr s1 \<Rightarrow>
     (case addTo (Marker City p pp) s1 of
        Inl e \<Rightarrow> (Settled, s1)
      | Inr (l, s2) \<Rightarrow>
     (let s3 = s2\<lparr>currentCityLayer := Some l\<rparr> in
     (case setView q 10 s3 of
        Inl e \<Rightarrow> (Settled, s3)
      | Inr s4 \<Rightarrow> populateDistrictSelector (Some c) (showCityBoundary b d s4))))))" for p pp q d
  proof (cases "removeIfSet (currentCityLayer s) s")
    case (Inl e)
    with t show ?thesis by simp
  next
    case (Inr s1)
    note t1 = tracked_removeIfSet [OF Inr t]
    show ?thesis
    proof (cases "addTo (Marker City p pp) s1")
      case (Inl e)
      with Inr t1 show ?thesis by simp
    next
      case (Inr ls)
      obtain l s2 where ls: "ls = (l, s2)" by (cases ls)
      from place_city_marker [OF t \<open>removeIfSet (currentCityLayer s) s = Inr s1\<close>
          Inr [unfolded ls]]
      have t3: "tracked (s2\<lparr>currentCityLayer := Some l\<rparr>)" by (rule conjunct1)
      show ?thesis
      proof (cases "setView q 10 (s2\<lparr>currentCityLayer := Some l\<rparr>)")
        case (Inl e)
        with \<open>removeIfSet (currentCityLayer s) s = Inr s1\<close> Inr ls t3
        show ?thesis by (simp add: Let_def)
      next
        case (Inr s4)
        from tracked_setView [OF Inr t3] have "tracked s4" .
        then have "tracked (snd (populateDistrictSelector (Some c) (showCityBoundary b d s4)))"
          by (simp add: tracked_showCityBoundary)
        with \<open>removeIfSet (currentCityLayer s) s = Inr s1\<close>
          \<open>addTo (Marker City p pp) s1 = Inr ls\<close> ls Inr
        show ?thesis by (simp add: Let_def)
      qed
    qed
  qed
  show ?thesis
    using t block
    by (simp add: selectCity_resume_def Let_def
        split: fetched.splits sum.splits option.splits)
qed

lemma tracked_selectDistrict_cityGeo:
  assumes t: "tracked s" shows "tracked (snd (selectDistrict_cityGeo b c dd r x y s))"
proof -
  have block: "tracked (snd
     (case removeIfSet (currentDistrictLayer s) s of
        Inl e \<Rightarrow> (Settled, s)
      | Inr s1 \<Rightarrow>
     (case addTo (Marker District p pp) s1 of
        Inl e \<Rightarrow> (Settled, s1)
      | Inr (l, s2) \<Rightarrow>
     (let s3 = s2\<lparr>currentDistrictLayer := Some l\<rparr> in
     (case setView q 12 s3 of
        Inl e \<Rightarrow> (Settled, s3)
      | Inr s4 \<Rightarrow> populateVillageSelector (Some c) s4)))))" for p pp q d
  proof (cases "removeIfSet (currentDistrictLayer s) s")
    case (Inl e)
    with t show ?thesis by simp
  next
    case (Inr s1)
    note t1 = tracked_removeIfSet [OF Inr t]
    show ?thesis
    proof (cases "addTo (Marker District p pp) s1")
      case (Inl e)
      with Inr t1 show ?thesis by simp
    next
      case (Inr ls)
      obtain l s2 where ls: "ls = (l, s2)" by (cases ls)
      from place_district_marker [OF t \<open>removeIfSet (currentDistrictLayer s) s = Inr s1\<close>
          Inr [unfolded ls]]
      have t3: "tracked (s2\<lparr>currentDistrictLayer := Some l\<rparr>)" by (rule conjunct1)
      show ?thesis
      proof (cases "setView q 12 (s2\<lparr>currentDistrictLayer := Some l\<rparr>)")
        case (Inl e)
        with \<open>removeIfSet (currentDistrictLayer s) s = Inr s1\<close> Inr ls t3
        show ?thesis by (simp add: Let_def)
      next
        case (Inr s4)
        from tracked_setView [OF Inr t3] have "tracked s4" .
        then have "tracked (snd (populateVillageSelector (Some c) s4))"
          by simp
        with \<open>removeIfSet (currentDistrictLayer s) s = Inr s1\<close>
          \<open>addTo (Marker District p pp) s1 = Inr ls\<close> ls Inr
        show ?thesis by (simp add: Let_def)
      qed
    qed
  qed
  show ?thesis
    using t block
    by (simp add: selectDistrict_cityGeo_def Let_def
        split: fetched.splits sum.splits option.splits)
qed

lemma tracked_selectVillage_cityGeo:
  assumes t: "tracked s" shows "tracked (snd (selectVillage_cityGeo b dd r x y s))"
proof -
  have block: "tracked (snd
     (case removeIfSet (currentVillageLayer s) s of
        Inl e \<Rightarrow> (Settled, s)
      | Inr s1 \<Rightarrow>
     (case addTo (Marker Village p pp) s1 of
        Inl e \<Rightarrow> (Settled, s1)
      | Inr (l, s2) \<Rightarrow>
     (let s3 = s2\<lparr>currentVillageLayer := Some l\<rparr> in
     (case setView q 14 s3 of
        Inl e \<Rightarrow> (Settled, s3)
      | Inr s4 \<Rightarrow> (Settled, s4))))))" for p pp q d
  proof (cases "removeIfSet (currentVillageLayer s) s")
    case (Inl e)
    with t show ?thesis by simp
  next
    case (Inr s1)
    note t1 = tracked_removeIfSet [OF Inr t]
    show ?thesis
    proof (cases "addTo (Marker Village p pp) s1")
      case (Inl e)
      with Inr t1 show ?thesis by simp
    next
      case (Inr ls)
      obtain l s2 where ls: "ls = (l, s2)" by (cases ls)
      from place_village_marker [OF t \<open>removeIfSet (currentVillageLayer s) s = Inr s1\<close>
          Inr [unfolded ls]]
      have t3: "tracked (s2\<lparr>currentVillageLayer := Some l\<rparr>)" by (rule conjunct1)
      show ?thesis
      proof (cases "setView q 14 (s2\<lparr>currentVillageLayer := Some l\<rparr>)")
        case (Inl e)
        with \<open>removeIfSet (currentVillageLayer s) s = Inr s1\<close> Inr ls t3
        show ?thesis by (simp add: Let_def)
      next
        case (Inr s4)
        from tracked_setView [OF Inr t3] have "tracked s4" .
        then have "tracked (snd ((Settled, s4)))"
          by simp
        with \<open>removeIfSet (currentVillageLayer s) s = Inr s1\<close>
          \<open>addTo (Marker Village p pp) s1 = Inr ls\<close> ls Inr
        show ?thesis by (simp add: Let_def)
      qed
    qed
  qed
  show ?thesis
    using t block
    by (simp add: selectVillage_cityGeo_def Let_def
        split: fetched.splits sum.splits option.splits)
qed

lemma tracked_details:
  "tracked s \<Longrightarrow> tracked (snd (selectDistrict_detail c r s))"
  "tracked s \<Longrightarrow> tracked (snd (selectVillage_detail c r s))"
  by (simp_all add: selectDistrict_detail_def selectVillage_detail_def
      split: fetched.splits sum.splits option.splits)

lemma tracked_resume: "tracked s \<Longrightarrow> tracked (snd (resume b p r x y s))"
  by (cases p)
     (simp_all add: tracked_selectProvince_resume tracked_selectCity_resume
        tracked_selectDistrict_cityGeo tracked_selectVillage_cityGeo tracked_details)

lemma tracked_unset:
  assumes t: "tracked s"
    and ls: "layers_on_map s' = without (holder ov s) (layers_on_map s)"
    and n: "next_id s' = next_id s"
    and others: "\<And>ov'. holder ov' s' = holder ov' s \<or>
                   (holder ov' s' = None \<and> holder ov' s = holder ov s)"
    and b: "below (next_id s) (currentProvinceLayer s')"
      "below (next_id s) (currentCityLayer s')"
      "below (next_id s) (currentDistrictLayer s')"
      "below (next_id s) (currentVillageLayer s')"
      "below (next_id s) (provinceBoundariesLayer s')"
      "below (next_id s) (cityBoundariesLayer s')"
  shows "tracked s'"
proof -
  let ?old = "without (holder ov s) (layers_on_map s)"
  from t have d: "distinct (map fst (layers_on_map s))"
    and a: "\<forall>l \<in> set (layers_on_map s). fst l < next_id s \<and> holder (snd l) s = Some l"
    by (auto simp: tracked_def list_all_iff)
  have sub: "set ?old \<subseteq> set (layers_on_map s)" by (rule set_without)
  have kept: "holder (snd l) s' = Some l" if l: "l \<in> set ?old" for l
  proof -
    from l sub a have hl: "holder (snd l) s = Some l" by auto
    from others [of "snd l"] show ?thesis
    proof
      assume "holder (snd l) s' = holder (snd l) s"
      with hl show ?thesis by simp
    next
      assume "holder (snd l) s' = None \<and> holder (snd l) s = holder ov s"
      with hl have "holder ov s = Some l" by simp
      with l have False by (simp add: without_def)
      then show ?thesis ..
    qed
  qed
  have "list_all (\<lambda>l. fst l < next_id s' \<and> holder (snd l) s' = Some l) (layers_on_map s')"
    using a sub kept by (auto simp: ls n list_all_iff)
  with distinct_without [OF d, of "holder ov s"] b show ?thesis by (simp add: tracked_def ls n)
qed

lemma below_None [simp]: "below n None"
  by (simp add: below_def)

lemma tracked_dropProvinceLayer:
  assumes t: "tracked s" and r: "dropProvinceLayer s = Inr s1"
  shows "tracked s1"
proof (cases "currentProvinceLayer s")
  case None
  with r t show ?thesis by (simp add: dropProvinceLayer_def)
next
  case (Some l)
  with r obtain s0 where r0: "removeLayer l s = Inr s0" and s1: "s1 = s0\<lparr>currentProvinceLayer := None\<rparr>"
    by (auto simp: dropProvinceLayer_def split: sum.splits)
  note e = removeLayer_effect [OF r0]
  have ls: "layers_on_map s1 = without (holder (Marker Province undefined undefined) s) (layers_on_map s)"
    using e Some by (simp add: s1 layers_on_map_def)
  have n: "next_id s1 = next_id s" using e by (simp add: s1)
  have v: "layer_vars s0 = layer_vars s" using e by simp
  have o: "holder ov' s1 = holder ov' s \<or>
           (holder ov' s1 = None \<and> holder ov' s = holder (Marker Province undefined undefined) s)" for ov'
    using v by (cases "(ov', s)" rule: holder.cases) (simp_all add: layer_vars_def s1)
  show ?thesis
    using tracked_below [OF t] v
    by (intro tracked_unset [OF t ls n o]) (simp_all add: layer_vars_def s1)
qed

lemma tracked_dropCityLayer:
  assumes t: "tracked s" and r: "dropCityLayer s = Inr s1"
  shows "tracked s1"
proof (cases "currentCityLayer s")
  case None
  with r t show ?thesis by (simp add: dropCityLayer_def)
next
  case (Some l)
  with r obtain s0 where r0: "removeLayer l s = Inr s0" and s1: "s1 = s0\<lparr>currentCityLayer := None\<rparr>"
    by (auto simp: dropCityLayer_def split: sum.splits)
  note e = removeLayer_effect [OF r0]
  have ls: "layers_on_map s1 = without (holder (Marker City undefined undefined) s) (layers_on_map s)"
    using e Some by (simp add: s1 layers_on_map_def)
  have n: "next_id s1 = next_id s" using e by (simp add: s1)
  have v: "layer_vars s0 = layer_vars s" using e by simp
  have o: "holder ov' s1 = holder ov' s \<or>
           (holder ov' s1 = None \<and> holder ov' s = holder (Marker City undefined undefined) s)" for ov'
    using v by (cases "(ov', s)" rule: holder.cases) (simp_all add: layer_vars_def s1)
  show ?thesis
    using tracked_below [OF t] v
    by (intro tracked_unset [OF t ls n o]) (simp_all add: layer_vars_def s1)
qed

lemma tracked_dropDistrictLayer:
  assumes t: "tracked s" and r: "dropDistrictLayer s = Inr s1"
  shows "tracked s1"
proof (cases "currentDistrictLayer s")
  case None
  with r t show ?thesis by (simp add: dropDistrictLayer_def)
next
  case (Some l)
  with r obtain s0 where r0: "removeLayer l s = Inr s0" and s1: "s1 = s0\<lparr>currentDistrictLayer := None\<rparr>"
    by (auto simp: dropDistrictLayer_def split: sum.splits)
  note e = removeLayer_effect [OF r0]
  have ls: "layers_on_map s1 = without (holder (Marker District undefined undefined) s) (layers_on_map s)"
    using e Some by (simp add: s1 layers_on_map_def)
  have n: "next_id s1 = next_id s" using e by (simp add: s1)
  have v: "layer_vars s0 = layer_vars s" using e by simp
  have o: "holder ov' s1 = holder ov' s \<or>
           (holder ov' s1 = None \<and> holder ov' s = holder (Marker District undefined undefined) s)" for ov'
    using v by (cases "(ov', s)" rule: holder.cases) (simp_all add: layer_vars_def s1)
  show ?thesis
    using tracked_below [OF t] v
    by (intro tracked_unset [OF t ls n o]) (simp_all add: layer_vars_def s1)
qed

lemma tracked_dropVillageLayer:
  assumes t: "tracked s" and r: "dropVillageLayer s = Inr s1"
  shows "tracked s1"
proof (cases "currentVillageLayer s")
  case None
  with r t show ?thesis by (simp add: dropVillageLayer_def)
next
  case (Some l)
  with r obtain s0 where r0: "removeLayer l s = Inr s0" and s1: "s1 = s0\<lparr>currentVillageLayer := None\<rparr>"
    by (auto simp: dropVillageLayer_def split: sum.splits)
  note e = removeLayer_effect [OF r0]
  have ls: "layers_on_map s1 = without (holder (Marker Village undefined undefined) s) (layers_on_map s)"
    using e Some by (simp add: s1 layers_on_map_def)
  have n: "next_id s1 = next_id s" using e by (simp add: s1)
  have v: "layer_vars s0 = layer_vars s" using e by simp
  have o: "holder ov' s1 = holder ov' s \<or>
           (holder ov' s1 = None \<and> holder ov' s = holder (Marker Village undefined undefined) s)" for ov'
    using v by (cases "(ov', s)" rule: holder.cases) (simp_all add: layer_vars_def s1)
  show ?thesis
    using tracked_below [OF t] v
    by (intro tracked_unset [OF t ls n o]) (simp_all add: layer_vars_def s1)
qed

lemma tracked_dropCityBoundaries:
  assumes t: "tracked s" and r: "dropCityBoundaries s = Inr s1"
  shows "tracked s1"
proof (cases "cityBoundariesLayer s")
  case None
  with r t show ?thesis by (simp add: dropCityBoundaries_def)
next
  case (Some l)
  with r obtain s0 where r0: "removeLayer l s = Inr s0" and s1: "s1 = s0\<lparr>cityBoundariesLayer := None\<rparr>"
    by (auto simp: dropCityBoundaries_def split: sum.splits)
  note e = removeLayer_effect [OF r0]
  have ls: "layers_on_map s1 = without (holder (Boundary City []) s) (layers_on_map s)"
    using e Some by (simp add: s1 layers_on_map_def)
  have n: "next_id s1 = next_id s" using e by (simp add: s1)
  have v: "layer_vars s0 = layer_vars s" using e by simp
  have o: "holder ov' s1 = holder ov' s \<or>
           (holder ov' s1 = None \<and> holder ov' s = holder (Boundary City []) s)" for ov'
    using v by (cases "(ov', s)" rule: holder.cases) (simp_all add: layer_vars_def s1)
  show ?thesis
    using tracked_below [OF t] v
    by (intro tracked_unset [OF t ls n o]) (simp_all add: layer_vars_def s1)
qed

lemma tracked_dropProvinceBoundary:
  "tracked s \<Longrightarrow> dropProvinceBoundary s = Inr s1 \<Longrightarrow> tracked s1"
proof -
  assume t: "tracked s" and r: "dropProvinceBoundary s = Inr s1"
  have c: "tracked (s0\<lparr>provinceBoundaryLayer := u\<rparr>) = tracked s0" for s0 u
    by (rule tracked_cong) simp_all
  from r t show ?thesis
    by (auto simp: dropProvinceBoundary_def c split: binding.splits option.splits sum.splits
        dest: tracked_removeLayer)
qed

lemma tracked_dropCityBoundary:
  "tracked s \<Longrightarrow> dropCityBoundary s = Inr s1 \<Longrightarrow> tracked s1"
proof -
  assume t: "tracked s" and r: "dropCityBoundary s = Inr s1"
  have c: "tracked (s0\<lparr>cityBoundaryLayer := u\<rparr>) = tracked s0" for s0 u
    by (rule tracked_cong) simp_all
  from r t show ?thesis
    by (auto simp: dropCityBoundary_def c split: binding.splits option.splits sum.splits
        dest: tracked_removeLayer)
qed

lemma tracked_resetMap: "tracked s \<Longrightarrow> tracked (snd (resetMap s))"
  by (auto simp: resetMap_def Let_def split: sum.splits
      dest!: tracked_setView tracked_dropProvinceLayer [rotated] tracked_dropCityLayer [rotated]
        tracked_dropDistrictLayer [rotated] tracked_dropVillageLayer [rotated]
        tracked_dropProvinceBoundary [rotated] tracked_dropCityBoundary [rotated]
        tracked_dropCityBoundaries [rotated])

lemma tracked_selectProvince: "tracked s \<Longrightarrow> tracked (snd (selectProvince c s))"
proof -
  assume t: "tracked s"
  have u: "tracked (s\<lparr>el_province_info_content := u, el_province_info := w\<rparr>)" for u w
    using t tracked_cong [of "s\<lparr>el_province_info_content := u, el_province_info := w\<rparr>" s]
    by simp
  obtain e s1 where r: "resetMap s = (e, s1)" by (cases "resetMap s")
  with tracked_resetMap [OF t] have "tracked s1" by simp
  with r u show ?thesis
    by (cases e) (simp_all add: selectProvince_def)
qed

lemma tracked_selectCity: "tracked s \<Longrightarrow> tracked (snd (selectCity c s))"
  by (auto simp: selectCity_def split: sum.splits dest: tracked_dropCityLayer)

lemma tracked_selectDistrict: "tracked s \<Longrightarrow> tracked (snd (selectDistrict c s))"
  by (auto simp: selectDistrict_def split: sum.splits dest: tracked_dropDistrictLayer)

lemma tracked_selectVillage: "tracked s \<Longrightarrow> tracked (snd (selectVillage c s))"
  by (auto simp: selectVillage_def split: sum.splits dest: tracked_dropVillageLayer)

lemma tracked_init: "tracked s \<Longrightarrow> tracked (snd (init s))"
  by (auto simp: init_def tracked_def layers_on_map_def split: option.splits)

lemma tracked_step: "tracked s \<Longrightarrow> tracked (snd (step b e s))"
proof (cases e)
  case ResetMap
  assume "tracked s"
  from tracked_resetMap [OF this] ResetMap show ?thesis
    by (cases "resetMap s"; cases "fst (resetMap s)") simp_all
qed (simp_all add: tracked_init tracked_selectProvince tracked_selectCity
      tracked_selectDistrict tracked_selectVillage tracked_resume)

lemma tracked_loaded: "script_loaded s \<Longrightarrow> tracked s"
  by (simp add: script_loaded_def tracked_def layers_on_map_def)

lemma reachable_tracked: "reachable b s \<Longrightarrow> tracked s"
  by (induction rule: reachable.induct) (simp_all add: tracked_loaded tracked_step)

lemma locatesE:
  assumes "locates b r"
  obtains resp d la lo where "r = Json resp" and "responseData resp = Inr (Some d)"
    and "parseFloat b (getProp d ''lat'') = Num la" and "parseFloat b (getProp d ''lng'') = Num lo"
proof -
  from assms obtain resp where r: "r = Json resp" by (cases r) (simp_all add: locates_def)
  with assms obtain d where d: "responseData resp = Inr (Some d)"
    and n: "parseFloat b (getProp d ''lat'') \<noteq> NaN" "parseFloat b (getProp d ''lng'') \<noteq> NaN"
    by (auto simp: locates_def split: sum.splits option.splits)
  from n obtain la lo where "parseFloat b (getProp d ''lat'') = Num la"
    "parseFloat b (getProp d ''lng'') = Num lo"
    by (cases "parseFloat b (getProp d ''lat'')"; cases "parseFloat b (getProp d ''lng'')") auto
  with r d that show ?thesis by blast
qed

lemma layers_on_map_dom [simp]:
  "layers_on_map (snd (populateCitySelector c s)) = layers_on_map s"
  "layers_on_map (snd (populateDistrictSelector c s)) = layers_on_map s"
  "layers_on_map (snd (populateVillageSelector c s)) = layers_on_map s"
  "layers_on_map (showProvinceInfo d s) = layers_on_map s"
  by (simp_all add: layers_on_map_def)

lemma mem_without: "l \<in> set ls \<Longrightarrow> below (fst l) v \<Longrightarrow> l \<in> set (without v ls)"
  by (cases v) (auto simp: without_def below_def)

lemma mem_showProvinceBoundary:
  "l \<in> set (layers_on_map s) \<Longrightarrow> below (fst l) (provinceBoundariesLayer s) \<Longrightarrow>
   l \<in> set (layers_on_map (showProvinceBoundary b d s))"
  by (cases "map_obj s")
     (auto simp: layers_on_map_def showProvinceBoundary_on_map Let_def mem_without)

lemma mem_showCityBoundary:
  "l \<in> set (layers_on_map s) \<Longrightarrow> below (fst l) (cityBoundariesLayer s) \<Longrightarrow>
   l \<in> set (layers_on_map (showCityBoundary b d s))"
  by (cases "map_obj s")
     (auto simp: layers_on_map_def showCityBoundary_on_map Let_def mem_without)

lemma at_least_one_marker:
  "l \<in> set (layers_on_map s) \<Longrightarrow> is_marker_of lv l \<Longrightarrow> 1 \<le> length (markers_of lv s)"
proof -
  assume "l \<in> set (layers_on_map s)" "is_marker_of lv l"
  then have "l \<in> set (markers_of lv s)" by (simp add: markers_of_def)
  then show ?thesis by (cases "markers_of lv s") auto
qed

lemma at_least_one_boundary:
  "l \<in> set (layers_on_map s) \<Longrightarrow> is_boundary_of lv l \<Longrightarrow> 1 \<le> length (boundaries_of lv s)"
proof -
  assume "l \<in> set (layers_on_map s)" "is_boundary_of lv l"
  then have "l \<in> set (boundaries_of lv s)" by (simp add: boundaries_of_def)
  then show ?thesis by (cases "boundaries_of lv s") auto
qed

lemma map_obj_showProvinceBoundary:
  "map_obj s \<noteq> None \<Longrightarrow> map_obj (showProvinceBoundary b d s) \<noteq> None"
  by (auto simp: showProvinceBoundary_on_map Let_def)

lemma map_obj_showCityBoundary:
  "map_obj s \<noteq> None \<Longrightarrow> map_obj (showCityBoundary b d s) \<noteq> None"
  by (auto simp: showCityBoundary_on_map Let_def)

lemma placed_province:
  assumes t: "tracked s" and m: "map_obj s \<noteq> None" and l: "locates b r"
  shows "length (markers_of Province (snd (selectProvince_resume b c r s))) = 1 \<and>
         map_obj (snd (selectProvince_resume b c r s)) \<noteq> None"
proof -
  from m obtain mp where mp: "map_obj s = Some mp" by auto
  from l obtain resp d la lo where r: "r = Json resp" and a: "responseData resp = Inr (Some d)"
    "parseFloat b (getProp d ''lat'') = Num la" "parseFloat b (getProp d ''lng'') = Num lo"
    by (rule locatesE)
  let ?l = "(next_id s, Marker Province (Num la, Num lo) (ProvincePopup d))"
  let ?s4 = "s\<lparr>next_id := Suc (next_id s),
          map_obj := Some (mp\<lparr>center := (Num la, Num lo), zoom := 8,
             layers := without (currentProvinceLayer s) (layers mp) @ [?l]\<rparr>),
          currentProvinceLayer := Some ?l\<rparr>"
  have eq: "selectProvince_resume b c r s
      = populateCitySelector (Some c) (showProvinceBoundary b d (showProvinceInfo d ?s4))"
    unfolding r by (rule selectProvince_resume_placed [OF mp a])
  have "below (next_id s) (provinceBoundariesLayer s)" using t by (simp add: tracked_def)
  then have "?l \<in> set (layers_on_map (showProvinceBoundary b d (showProvinceInfo d ?s4)))"
    by (intro mem_showProvinceBoundary) (simp_all add: layers_on_map_def)
  then have ge: "1 \<le> length (markers_of Province (snd (selectProvince_resume b c r s)))"
    by (intro at_least_one_marker [of ?l]) (simp_all add: eq)
  have "tracked (snd (selectProvince_resume b c r s))"
    by (rule tracked_selectProvince_resume [OF t])
  from tracked_counts [OF this, of Province] ge
  have one: "length (markers_of Province (snd (selectProvince_resume b c r s))) = 1" by simp
  have "map_obj (snd (selectProvince_resume b c r s)) \<noteq> None"
    by (simp add: eq map_obj_showProvinceBoundary)
  with one show ?thesis by simp
qed

lemma placed_city:
  assumes t: "tracked s" and m: "map_obj s \<noteq> None" and l: "locates b r"
  shows "length (markers_of City (snd (selectCity_resume b c r s))) = 1 \<and>
         map_obj (snd (selectCity_resume b c r s)) \<noteq> None"
proof -
  from m obtain mp where mp: "map_obj s = Some mp" by auto
  from l obtain resp d la lo where r: "r = Json resp" and a: "responseData resp = Inr (Some d)"
    "parseFloat b (getProp d ''lat'') = Num la" "parseFloat b (getProp d ''lng'') = Num lo"
    by (rule locatesE)
  let ?l = "(next_id s, Marker City (Num la, Num lo) (CityPopup d))"
  let ?s4 = "s\<lparr>next_id := Suc (next_id s),
          map_obj := Some (mp\<lparr>center := (Num la, Num lo), zoom := 10,
             layers := without (currentCityLayer s) (layers mp) @ [?l]\<rparr>),
          currentCityLayer := Some ?l\<rparr>"
  have eq: "selectCity_resume b c r s
      = populateDistrictSelector (Some c) (showCityBoundary b d ?s4)"
    unfolding r by (rule selectCity_resume_placed [OF mp a])
  have "below (next_id s) (cityBoundariesLayer s)" using t by (simp add: tracked_def)
  then have "?l \<in> set (layers_on_map (showCityBoundary b d ?s4))"
    by (intro mem_showCityBoundary) (simp_all add: layers_on_map_def)
  then have ge: "1 \<le> length (markers_of City (snd (selectCity_resume b c r s)))"
    by (intro at_least_one_marker [of ?l]) (simp_all add: eq)
  have "tracked (snd (selectCity_resume b c r s))"
    by (rule tracked_selectCity_resume [OF t])
  from tracked_counts [OF this, of City] ge
  have one: "length (markers_of City (snd (selectCity_resume b c r s))) = 1" by simp
  have "map_obj (snd (selectCity_resume b c r s)) \<noteq> None"
    by (simp add: eq map_obj_showCityBoundary)
  with one show ?thesis by simp
qed

lemma placed_district:
  assumes t: "tracked s" and m: "map_obj s \<noteq> None" and l: "locates b r"
  shows "length (markers_of District (snd (selectDistrict_cityGeo b c dd r x y s))) = 1 \<and>
         map_obj (snd (selectDistrict_cityGeo b c dd r x y s)) \<noteq> None"
proof -
  from m obtain mp where mp: "map_obj s = Some mp" by auto
  from l obtain resp d la lo where r: "r = Json resp" and a: "responseData resp = Inr (Some d)"
    "parseFloat b (getProp d ''lat'') = Num la" "parseFloat b (getProp d ''lng'') = Num lo"
    by (rule locatesE)
  have ge: "1 \<le> length (markers_of District (snd (selectDistrict_cityGeo b c dd r x y s)))"
    unfolding r selectDistrict_cityGeo_placed [OF mp a]
    by (rule at_least_one_marker
          [of "(next_id s, Marker District (Num (la + (x - 0.5) * 0.1), Num (lo + (y - 0.5) * 0.1))
                 (DistrictPopup dd))"])
       (simp_all add: layers_on_map_def)
  have "tracked (snd (selectDistrict_cityGeo b c dd r x y s))"
    by (rule tracked_selectDistrict_cityGeo [OF t])
  from tracked_counts [OF this, of District] ge
  have one: "length (markers_of District (snd (selectDistrict_cityGeo b c dd r x y s))) = 1"
    by simp
  have "map_obj (snd (selectDistrict_cityGeo b c dd r x y s)) \<noteq> None"
    unfolding r selectDistrict_cityGeo_placed [OF mp a] by simp
  with one show ?thesis by simp
qed

lemma placed_village:
  assumes t: "tracked s" and m: "map_obj s \<noteq> None" and l: "locates b r"
  shows "length (markers_of Village (snd (selectVillage_cityGeo b dd r x y s))) = 1 \<and>
         map_obj (snd (selectVillage_cityGeo b dd r x y s)) \<noteq> None"
proof -
  from m obtain mp where mp: "map_obj s = Some mp" by auto
  from l obtain resp d la lo where r: "r = Json resp" and a: "responseData resp = Inr (Some d)"
    "parseFloat b (getProp d ''lat'') = Num la" "parseFloat b (getProp d ''lng'') = Num lo"
    by (rule locatesE)
  have ge: "1 \<le> length (markers_of Village (snd (selectVillage_cityGeo b dd r x y s)))"
    unfolding r selectVillage_cityGeo_placed [OF mp a]
    by (rule at_least_one_marker
          [of "(next_id s, Marker Village (Num (la + (x - 0.5) * 0.2), Num (lo + (y - 0.5) * 0.2))
                 (VillagePopup dd))"])
       (simp_all add: layers_on_map_def)
  have "tracked (snd (selectVillage_cityGeo b dd r x y s))"
    by (rule tracked_selectVillage_cityGeo [OF t])
  from tracked_counts [OF this, of Village] ge
  have one: "length (markers_of Village (snd (selectVillage_cityGeo b dd r x y s))) = 1"
    by simp
  have "map_obj (snd (selectVillage_cityGeo b dd r x y s)) \<noteq> None"
    unfolding r selectVillage_cityGeo_placed [OF mp a] by simp
  with one show ?thesis by simp
qed

lemma placed:
  assumes "tracked s" and "map_obj s \<noteq> None" and "places b lv e"
  shows "length (markers_of lv (snd (step b e s))) = 1 \<and> map_obj (snd (step b e s)) \<noteq> None"
  using assms
  by (cases "(b, lv, e)" rule: places.cases)
     (simp_all add: placed_province placed_city placed_district placed_village)

lemma responseData_truthy: "responseData resp = Inr (Some d) \<Longrightarrow> truthy d"
  by (cases resp) (auto simp: responseData_def split: if_splits)

lemma outlinesE:
  assumes "outlines b lv (Json resp)" and "responseData resp = Inr (Some d)"
  shows "truthy d \<and> truthy (getProp d ''path'') \<and>
         renderablePolygons b (getProp d ''path'') \<noteq> [] \<and>
         valid_overlay (Boundary lv (renderablePolygons b (getProp d ''path'')))"
  using assms responseData_truthy [OF assms(2)] by (simp add: outlines_def)

lemma drawn_showProvinceBoundary:
  assumes "map_obj s \<noteq> None" and "truthy d \<and> truthy (getProp d ''path'') \<and>
         renderablePolygons b (getProp d ''path'') \<noteq> [] \<and>
         valid_overlay (Boundary Province (renderablePolygons b (getProp d ''path'')))"
  shows "(next_id s, Boundary Province (renderablePolygons b (getProp d ''path'')))
           \<in> set (layers_on_map (showProvinceBoundary b d s))"
proof -
  from assms(1) obtain m where m: "map_obj s = Some m" by auto
  show ?thesis using assms(2)
    by (simp add: showProvinceBoundary_on_map [OF m] Let_def layers_on_map_def)
qed

lemma drawn_showCityBoundary:
  assumes "map_obj s \<noteq> None" and "truthy d \<and> truthy (getProp d ''path'') \<and>
         renderablePolygons b (getProp d ''path'') \<noteq> [] \<and>
         valid_overlay (Boundary City (renderablePolygons b (getProp d ''path'')))"
  shows "(next_id s, Boundary City (renderablePolygons b (getProp d ''path'')))
           \<in> set (layers_on_map (showCityBoundary b d s))"
proof -
  from assms(1) obtain m where m: "map_obj s = Some m" by auto
  show ?thesis using assms(2)
    by (simp add: showCityBoundary_on_map [OF m] Let_def layers_on_map_def)
qed

lemma drawn_province:
  assumes t: "tracked s" and m: "map_obj s \<noteq> None" and l: "locates b r"
    and o: "outlines b Province r"
  shows "length (boundaries_of Province (snd (selectProvince_resume b c r s))) = 1"
proof -
  from m obtain mp where mp: "map_obj s = Some mp" by auto
  from l obtain resp d la lo where r: "r = Json resp" and a: "responseData resp = Inr (Some d)"
    "parseFloat b (getProp d ''lat'') = Num la" "parseFloat b (getProp d ''lng'') = Num lo"
    by (rule locatesE)
  let ?l = "(next_id s, Marker Province (Num la, Num lo) (ProvincePopup d))"
  let ?s4 = "s\<lparr>next_id := Suc (next_id s),
          map_obj := Some (mp\<lparr>center := (Num la, Num lo), zoom := 8,
             layers := without (currentProvinceLayer s) (layers mp) @ [?l]\<rparr>),
          currentProvinceLayer := Some ?l\<rparr>"
  have eq: "selectProvince_resume b c r s
      = populateCitySelector (Some c) (showProvinceBoundary b d (showProvinceInfo d ?s4))"
    unfolding r by (rule selectProvince_resume_placed [OF mp a])
  have "(next_id (showProvinceInfo d ?s4),
          Boundary Province (renderablePolygons b (getProp d ''path'')))
        \<in> set (layers_on_map (showProvinceBoundary b d (showProvinceInfo d ?s4)))"
    by (rule drawn_showProvinceBoundary [OF _ outlinesE [OF o [unfolded r] a(1)]]) simp
  then have "(next_id (showProvinceInfo d ?s4),
          Boundary Province (renderablePolygons b (getProp d ''path''))) \<in>
        set (layers_on_map (snd (selectProvince_resume b c r s)))"
    by (simp add: eq)
  then have ge: "1 \<le> length (boundaries_of Province (snd (selectProvince_resume b c r s)))"
    by (rule at_least_one_boundary) simp
  have "tracked (snd (selectProvince_resume b c r s))"
    by (rule tracked_selectProvince_resume [OF t])
  from tracked_counts [OF this, of Province] ge show ?thesis by simp
qed

lemma drawn_city:
  assumes t: "tracked s" and m: "map_obj s \<noteq> None" and l: "locates b r"
    and o: "outlines b City r"
  shows "length (boundaries_of City (snd (selectCity_resume b c r s))) = 1"
proof -
  from m obtain mp where mp: "map_obj s = Some mp" by auto
  from l obtain resp d la lo where r: "r = Json resp" and a: "responseData resp = Inr (Some d)"
    "parseFloat b (getProp d ''lat'') = Num la" "parseFloat b (getProp d ''lng'') = Num lo"
    by (rule locatesE)
  let ?l = "(next_id s, Marker City (Num la, Num lo) (CityPopup d))"
  let ?s4 = "s\<lparr>next_id := Suc (next_id s),
          map_obj := Some (mp\<lparr>center := (Num la, Num lo), zoom := 10,
             layers := without (currentCityLayer s) (layers mp) @ [?l]\<rparr>),
          currentCityLayer := Some ?l\<rparr>"
  have eq: "selectCity_resume b c r s
      = populateDistrictSelector (Some c) (showCityBoundary b d ?s4)"
    unfolding r by (rule selectCity_resume_placed [OF mp a])
  have "(next_id ?s4, Boundary City (renderablePolygons b (getProp d ''path'')))
        \<in> set (layers_on_map (showCityBoundary b d ?s4))"
    by (rule drawn_showCityBoundary [OF _ outlinesE [OF o [unfolded r] a(1)]]) simp
  then have "(next_id ?s4, Boundary City (renderablePolygons b (getProp d ''path''))) \<in>
        set (layers_on_map (snd (selectCity_resume b c r s)))"
    by (simp add: eq)
  then have ge: "1 \<le> length (boundaries_of City (snd (selectCity_resume b c r s)))"
    by (rule at_least_one_boundary) simp
  have "tracked (snd (selectCity_resume b c r s))"
    by (rule tracked_selectCity_resume [OF t])
  from tracked_counts [OF this, of City] ge show ?thesis by simp
qed

lemma drawn:
  assumes "tracked s" and "map_obj s \<noteq> None" and "draws b lv e"
  shows "length (boundaries_of lv (snd (step b e s))) = 1"
  using assms
  by (cases "(b, lv, e)" rule: draws.cases) (simp_all add: drawn_province drawn_city)

lemma draws_places: "draws b lv e \<Longrightarrow> places b lv e"
  by (cases "(b, lv, e)" rule: draws.cases) simp_all

text \<open>
  C8. In every state the page can reach, each level has at most one marker and at most
  one boundary layer on the map. Placing the marker of a level twice (two resumptions
  of its select function with a located response) leaves exactly one marker of that
  level, and drawing the boundary of a province or a city twice leaves exactly one
  boundary of that level: the layer the variable holds is taken off the map before the
  new one is added.
\<close>

theorem one_overlay_per_level:
  assumes "reachable b s"
  shows "length (markers_of lv s) \<le> 1 \<and> length (boundaries_of lv s) \<le> 1 \<and>
         (map_obj s \<noteq> None \<and> places b lv e1 \<and> places b lv e2 \<longrightarrow>
            length (markers_of lv (run b [e1, e2] s)) = 1) \<and>
         (map_obj s \<noteq> None \<and> draws b lv e1 \<and> draws b lv e2 \<longrightarrow>
            length (boundaries_of lv (run b [e1, e2] s)) = 1)"
proof -
  from assms have t: "tracked s" by (rule reachable_tracked)
  have t1: "tracked (snd (step b e1 s))" by (rule tracked_step [OF t])
  have m: "length (markers_of lv (run b [e1, e2] s)) = 1"
    if "map_obj s \<noteq> None" "places b lv e1" "places b lv e2"
  proof -
    from placed [OF t that(1,2)] have "map_obj (snd (step b e1 s)) \<noteq> None" by simp
    from placed [OF t1 this that(3)] show ?thesis by simp
  qed
  have d: "length (boundaries_of lv (run b [e1, e2] s)) = 1"
    if "map_obj s \<noteq> None" "draws b lv e1" "draws b lv e2"
  proof -
    from placed [OF t that(1) draws_places [OF that(2)]]
    have "map_obj (snd (step b e1 s)) \<noteq> None" by simp
    from drawn [OF t1 this that(3)] show ?thesis by simp
  qed
  from tracked_counts [OF t, of lv] m d show ?thesis by blast
qed

lemma ready_page_reachable: "reachable b ready_page"
proof -
  have "script_loaded fresh_page" by (simp add: script_loaded_def fresh_page_def)
  then have "reachable b fresh_page" by (rule reachable.loaded)
  then have "reachable b (snd (step b Init fresh_page))" by (rule reachable.after)
  then show ?thesis by (simp add: ready_page_def)
qed

lemma geo_outlined_draws:
  "locates text_free (Json (ok_response (geo_outlined la lo)))"
  "outlines text_free lv (Json (ok_response (geo_outlined la lo)))"
  by (simp_all add: locates_def outlines_def responseData_def ok_response_def geo_outlined_def
        getProp_def renderablePolygons_def parsePath_def normalizePath_def cleanCoords_def
        isNaN_def closeRing_def valid_point_def)

theorem one_overlay_per_level_witness:
  "reachable text_free ready_page \<and> map_obj ready_page \<noteq> None \<and>
   places text_free Province
     (Resume (ProvinceGeo ''31'') (Json (ok_response (geo_outlined (- 6.2) 106.8))) 0 0) \<and>
   places text_free Province
     (Resume (ProvinceGeo ''32'') (Json (ok_response (geo_outlined (- 6.9) 107.6))) 0 0) \<and>
   draws text_free Province
     (Resume (ProvinceGeo ''31'') (Json (ok_response (geo_outlined (- 6.2) 106.8))) 0 0) \<and>
   draws text_free Province
     (Resume (ProvinceGeo ''32'') (Json (ok_response (geo_outlined (- 6.9) 107.6))) 0 0) \<and>
   length (markers_of Province ready_page) \<le> 1 \<and>
   length (boundaries_of Province ready_page) \<le> 1 \<and>
   length (markers_of Province
     (run text_free
        [Resume (ProvinceGeo ''31'') (Json (ok_response (geo_outlined (- 6.2) 106.8))) 0 0,
         Resume (ProvinceGeo ''32'') (Json (ok_response (geo_outlined (- 6.9) 107.6))) 0 0]
        ready_page)) = 1 \<and>
   length (boundaries_of Province
     (run text_free
        [Resume (ProvinceGeo ''31'') (Json (ok_response (geo_outlined (- 6.2) 106.8))) 0 0,
         Resume (ProvinceGeo ''32'') (Json (ok_response (geo_outlined (- 6.9) 107.6))) 0 0]
        ready_page)) = 1"
proof -
  let ?e1 = "Resume (ProvinceGeo ''31'') (Json (ok_response (geo_outlined (- 6.2) 106.8))) 0 0"
  let ?e2 = "Resume (ProvinceGeo ''32'') (Json (ok_response (geo_outlined (- 6.9) 107.6))) 0 0"
  have r: "reachable text_free ready_page" by (rule ready_page_reachable)
  have m: "map_obj ready_page \<noteq> None" by (rule ready_page_map)
  have p: "places text_free Province ?e1" "places text_free Province ?e2"
    by (simp_all add: geo_outlined_draws)
  have d: "draws text_free Province ?e1" "draws text_free Province ?e2"
    by (simp_all add: geo_outlined_draws)
  from one_overlay_per_level [OF r, of Province ?e1 ?e2] r m p d
  show ?thesis by blast
qed

section \<open>The identifiers without a declaration\<close>

text \<open>
  No statement of the script assigns \<open>provinceBoundaryLayer\<close> or \<open>cityBoundaryLayer\<close>
  before reading it, so neither ever gets a binding: in every state the page can reach,
  resetMap ends with an exception and leaves the selection as it was.
\<close>

lemma undeclared_removeIfSet: "removeIfSet v s = Inr s1 \<Longrightarrow> undeclared s1 = undeclared s"
  by (auto simp: removeIfSet_def removeLayer_def undeclared_def split: option.splits)

lemma undeclared_removeLayer: "removeLayer l s = Inr s1 \<Longrightarrow> undeclared s1 = undeclared s"
  by (auto simp: removeLayer_def undeclared_def split: option.splits)

lemma undeclared_setView: "setView p z s = Inr s1 \<Longrightarrow> undeclared s1 = undeclared s"
  by (auto simp: setView_def undeclared_def split: option.splits if_splits)

lemma undeclared_addTo: "addTo ov s = Inr (l, s1) \<Longrightarrow> undeclared s1 = undeclared s"
  by (auto simp: addTo_def undeclared_def Let_def split: option.splits if_splits)

lemmas undeclared_prims =
  undeclared_removeIfSet undeclared_removeLayer undeclared_setView undeclared_addTo

lemma undeclared_dom [simp]:
  "undeclared (clearVillageSelector s) = undeclared s"
  "undeclared (clearDistrictSelector s) = undeclared s"
  "undeclared (clearCitySelector s) = undeclared s"
  "undeclared (snd (populateCitySelector c s)) = undeclared s"
  "undeclared (snd (populateDistrictSelector c s)) = undeclared s"
  "undeclared (snd (populateVillageSelector c s)) = undeclared s"
  "undeclared (populateCitySelector_resume r s) = undeclared s"
  "undeclared (populateDistrictSelector_resume r s) = undeclared s"
  "undeclared (populateVillageSelector_resume r s) = undeclared s"
  "undeclared (showProvinceInfo d s) = undeclared s"
  "undeclared (provinceFailed s) = undeclared s"
  "undeclared (showProvinceBoundary b d s) = undeclared s"
  "undeclared (showCityBoundary b d s) = undeclared s"
  "undeclared (resetSelection s) = undeclared s"
  by (simp_all add: undeclared_def resetSelection_def)

lemma undeclared_upd [simp]:
  "undeclared (s\<lparr>currentProvinceLayer := v\<rparr>) = undeclared s"
  "undeclared (s\<lparr>currentCityLayer := v\<rparr>) = undeclared s"
  "undeclared (s\<lparr>currentDistrictLayer := v\<rparr>) = undeclared s"
  "undeclared (s\<lparr>currentVillageLayer := v\<rparr>) = undeclared s"
  "undeclared (s\<lparr>cityBoundariesLayer := v\<rparr>) = undeclared s"
  "undeclared (s\<lparr>selectedLocation := x\<rparr>) = undeclared s"
  "undeclared (s\<lparr>el_province_info_content := u, el_province_info := w, selectedLocation := x\<rparr>)
     = undeclared s"
  "undeclared (s\<lparr>el_province_info_content := u, el_province_info := w\<rparr>) = undeclared s"
  by (simp_all add: undeclared_def)

lemma undeclared_resumes:
  "undeclared s \<Longrightarrow> undeclared (snd (selectProvince_resume b c r s))"
  "undeclared s \<Longrightarrow> undeclared (snd (selectCity_resume b c r s))"
  "undeclared s \<Longrightarrow> undeclared (snd (selectDistrict_cityGeo b c dd r x y s))"
  "undeclared s \<Longrightarrow> undeclared (snd (selectVillage_cityGeo b dd r x y s))"
  "undeclared s \<Longrightarrow> undeclared (snd (selectDistrict_detail c r s))"
  "undeclared s \<Longrightarrow> undeclared (snd (selectVillage_detail c r s))"
  by (auto simp: selectProvince_resume_def selectCity_resume_def selectDistrict_cityGeo_def
        selectVillage_cityGeo_def selectDistrict_detail_def selectVillage_detail_def Let_def
      split: fetched.splits sum.splits option.splits prod.splits
      dest!: undeclared_prims)

lemma undeclared_drops:
  "dropProvinceLayer s = Inr s1 \<Longrightarrow> undeclared s1 = undeclared s"
  "dropCityLayer s = Inr s1 \<Longrightarrow> undeclared s1 = undeclared s"
  "dropDistrictLayer s = Inr s1 \<Longrightarrow> undeclared s1 = undeclared s"
  "dropVillageLayer s = Inr s1 \<Longrightarrow> undeclared s1 = undeclared s"
  "dropCityBoundaries s = Inr s1 \<Longrightarrow> undeclared s1 = undeclared s"
  by (auto simp: dropProvinceLayer_def dropCityLayer_def dropDistrictLayer_def
        dropVillageLayer_def dropCityBoundaries_def
      split: option.splits sum.splits dest!: undeclared_removeLayer)

lemma undeclared_throws: "undeclared s \<Longrightarrow> \<exists>e. dropProvinceBoundary s = Inl e"
  by (simp add: dropProvinceBoundary_def undeclared_def)

lemma resetMap_undeclared:
  assumes "undeclared s"
  shows "fst (resetMap s) \<noteq> None \<and> undeclared (snd (resetMap s)) \<and>
         selectedLocation (snd (resetMap s)) = selectedLocation s"
proof -
  have e: "selectedLocation s1 = selectedLocation s0"
    if "dropProvinceLayer s0 = Inr s1 \<or> dropCityLayer s0 = Inr s1 \<or>
        dropDistrictLayer s0 = Inr s1 \<or> dropVillageLayer s0 = Inr s1 \<or>
        setView DEFAULT_COORDINATE DEFAULT_ZOOM s0 = Inr s1" for s0 s1
    using that
    by (auto simp: dropProvinceLayer_def dropCityLayer_def dropDistrictLayer_def
          dropVillageLayer_def removeLayer_def setView_def
        split: option.splits sum.splits if_splits)
  show ?thesis
  proof (cases "setView DEFAULT_COORDINATE DEFAULT_ZOOM s")
    case (Inl x)
    with assms show ?thesis by (simp add: resetMap_def)
  next
    case s1: (Inr s1)
    show ?thesis
    proof (cases "dropProvinceLayer s1")
      case (Inl x)
      with s1 assms e [of s s1] undeclared_setView [OF s1] show ?thesis
        by (simp add: resetMap_def)
    next
      case s2: (Inr s2)
      show ?thesis
      proof (cases "dropCityLayer s2")
        case (Inl x)
        with s1 s2 assms e [of s s1] e [of s1 s2] undeclared_setView [OF s1]
          undeclared_drops(1) [OF s2]
        show ?thesis by (simp add: resetMap_def)
      next
        case s3: (Inr s3)
        show ?thesis
        proof (cases "dropDistrictLayer s3")
          case (Inl x)
          with s1 s2 s3 assms e [of s s1] e [of s1 s2] e [of s2 s3] undeclared_setView [OF s1]
            undeclared_drops(1) [OF s2] undeclared_drops(2) [OF s3]
          show ?thesis by (simp add: resetMap_def)
        next
          case s4: (Inr s4)
          show ?thesis
          proof (cases "dropVillageLayer s4")
            case (Inl x)
            with s1 s2 s3 s4 assms e [of s s1] e [of s1 s2] e [of s2 s3] e [of s3 s4]
              undeclared_setView [OF s1] undeclared_drops(1) [OF s2]
              undeclared_drops(2) [OF s3] undeclared_drops(3) [OF s4]
            show ?thesis by (simp add: resetMap_def)
          next
            case s5: (Inr s5)
            have u5: "undeclared s5"
              using assms undeclared_setView [OF s1] undeclared_drops(1) [OF s2]
                undeclared_drops(2) [OF s3] undeclared_drops(3) [OF s4]
                undeclared_drops(4) [OF s5] by simp
            from undeclared_throws [OF u5] obtain x where "dropProvinceBoundary s5 = Inl x" ..
            with s1 s2 s3 s4 s5 u5 e [of s s1] e [of s1 s2] e [of s2 s3] e [of s3 s4]
              e [of s4 s5]
            show ?thesis by (simp add: resetMap_def)
          qed
        qed
      qed
    qed
  qed
qed

lemma undeclared_selects:
  "undeclared s \<Longrightarrow> undeclared (snd (selectProvince c s))"
  "undeclared s \<Longrightarrow> undeclared (snd (selectCity c s))"
  "undeclared s \<Longrightarrow> undeclared (snd (selectDistrict c s))"
  "undeclared s \<Longrightarrow> undeclared (snd (selectVillage c s))"
  "undeclared s \<Longrightarrow> undeclared (snd (init s))"
proof -
  assume u: "undeclared s"
  obtain e s1 where r: "resetMap s = (e, s1)" by (cases "resetMap s")
  with resetMap_undeclared [OF u] have "undeclared s1" by simp
  with r u show "undeclared (snd (selectProvince c s))"
    by (cases e) (simp_all add: selectProvince_def)
next
  assume "undeclared s"
  then show "undeclared (snd (selectCity c s))"
    by (auto simp: selectCity_def split: sum.splits dest!: undeclared_drops)
next
  assume "undeclared s"
  then show "undeclared (snd (selectDistrict c s))"
    by (auto simp: selectDistrict_def split: sum.splits dest!: undeclared_drops)
next
  assume "undeclared s"
  then show "undeclared (snd (selectVillage c s))"
    by (auto simp: selectVillage_def split: sum.splits dest!: undeclared_drops)
next
  assume "undeclared s"
  then show "undeclared (snd (init s))"
    by (simp add: init_def undeclared_def split: option.splits)
qed

lemma undeclared_step: "undeclared s \<Longrightarrow> undeclared (snd (step b e s))"
proof (cases e)
  case ResetMap
  assume "undeclared s"
  from resetMap_undeclared [OF this] ResetMap show ?thesis
    by (cases "resetMap s"; cases "fst (resetMap s)") simp_all
next
  case (Resume p r x y)
  assume "undeclared s"
  then show ?thesis unfolding Resume
    by (cases p) (simp_all add: undeclared_resumes)
qed (simp_all add: undeclared_selects)

lemma reachable_undeclared: "reachable b s \<Longrightarrow> undeclared s"
  by (induction rule: reachable.induct)
     (simp_all add: undeclared_step, simp add: script_loaded_def undeclared_def)

lemma resetMap_fails_when_reachable:
  "reachable b s \<Longrightarrow>
   fst (resetMap s) \<noteq> None \<and> selectedLocation (snd (resetMap s)) = selectedLocation s"
  using resetMap_undeclared [OF reachable_undeclared] by blast

end
